theory Spec2Isabelle
  imports Main
begin

section \<open>Strings of the source language\<close>

text \<open>
  A source string is modelled as a \<^typ>\<open>string\<close>, one \<^typ>\<open>char\<close> per code unit
  below 256; numbers that reach the adapters are integers. The helpers below are the
  string and array methods the adapters call.
\<close>

definition endsWith :: "string \<Rightarrow> string \<Rightarrow> bool" where
  "endsWith s suf =
     (length suf \<le> length s \<and> drop (length s - length suf) s = suf)"

definition startsWith :: "string \<Rightarrow> string \<Rightarrow> bool" where
  "startsWith s pre = (take (length pre) s = pre)"

text \<open>\<^verbatim>\<open>s.replace(/\/+$/, '')\<close>: the run of slashes that ends the string is removed.\<close>

definition strip_trailing_slashes :: "string \<Rightarrow> string" where
  "strip_trailing_slashes s = rev (dropWhile (\<lambda>c. c = CHR ''/'') (rev s))"

text \<open>\<^verbatim>\<open>parts.join(sep)\<close>.\<close>

fun join :: "string \<Rightarrow> string list \<Rightarrow> string" where
  "join sep [] = []"
| "join sep [x] = x"
| "join sep (x # y # ys) = x @ sep @ join sep (y # ys)"

definition newline :: char where
  "newline = CHR 0x0A"

text \<open>\<^verbatim>\<open>String(n)\<close> and \<^verbatim>\<open>`${n}`\<close> for an integer \<open>n\<close>: decimal digits, with a minus sign.\<close>

fun nat_digits :: "nat \<Rightarrow> string" where
  "nat_digits n =
     (if n < 10 then [''0123456789'' ! n]
      else nat_digits (n div 10) @ [''0123456789'' ! (n mod 10)])"

declare nat_digits.simps [simp del]

definition String_of :: "int \<Rightarrow> string" where
  "String_of n = (if n < 0 then CHR ''-'' # nat_digits (nat (- n)) else nat_digits (nat n))"

text \<open>The white space that \<^verbatim>\<open>trim()\<close> removes, among the code units below 256.\<close>

definition isWhiteSpace :: "char \<Rightarrow> bool" where
  "isWhiteSpace c =
     (c \<in> set [CHR 0x09, CHR 0x0A, CHR 0x0B, CHR 0x0C, CHR 0x0D, CHR 0x20, CHR 0xA0])"

definition trim :: "string \<Rightarrow> string" where
  "trim s = rev (dropWhile isWhiteSpace (rev (dropWhile isWhiteSpace s)))"

definition isDigit :: "char \<Rightarrow> bool" where
  "isDigit c = (c \<in> set ''0123456789'')"

definition toLowerCase :: "string \<Rightarrow> string" where
  "toLowerCase s =
     map (\<lambda>c. case map_of (zip ''ABCDEFGHIJKLMNOPQRSTUVWXYZ'' ''abcdefghijklmnopqrstuvwxyz'') c of
                 Some l \<Rightarrow> l | None \<Rightarrow> c) s"

text \<open>\<^verbatim>\<open>s.substring(0, n)\<close>.\<close>

definition substring0 :: "nat \<Rightarrow> string \<Rightarrow> string" where
  "substring0 n s = take n s"

text \<open>\<^verbatim>\<open>s.replace(/\n/g, ' ')\<close>.\<close>

definition newlines_to_spaces :: "string \<Rightarrow> string" where
  "newlines_to_spaces s = map (\<lambda>c. if c = newline then CHR '' '' else c) s"

text \<open>
  \<^verbatim>\<open>s.replace(/\n{3,}/g, '\n\n')\<close>: scanning from the left, every maximal run of line
  feeds of length three or more is replaced by two line feeds.
\<close>

function collapse_newlines :: "string \<Rightarrow> string" where
  "collapse_newlines [] = []"
| "collapse_newlines (c # cs) =
     (if c = newline then
        (let run = takeWhile (\<lambda>x. x = newline) (c # cs);
             rest = dropWhile (\<lambda>x. x = newline) (c # cs)
         in (if length run \<ge> 3 then [newline, newline] else run) @ collapse_newlines rest)
      else c # collapse_newlines cs)"
  by pat_completeness auto
termination
  by (relation "measure length") (auto simp: less_Suc_eq_le length_dropWhile_le)

declare collapse_newlines.simps [simp del]

text \<open>
  \<^verbatim>\<open>url.match(/\/articles\/(\d+)/)\<close>. A match at the start of \<open>s\<close> needs the prefix
  \<open>/articles/\<close> and a digit after it; its capture group is the run of digits there
  (\<open>capture_at\<close>, empty when there is no match at this position). The match is the
  leftmost one; \<open>None\<close> is the \<^verbatim>\<open>null\<close> of a failed match.
\<close>

definition capture_at :: "string \<Rightarrow> string" where
  "capture_at s =
     (if startsWith s ''/articles/'' then takeWhile isDigit (drop (length ''/articles/'') s)
      else [])"

fun match_article_id :: "string \<Rightarrow> string option" where
  "match_article_id [] = None"
| "match_article_id (c # cs) =
     (if capture_at (c # cs) \<noteq> [] then Some (capture_at (c # cs))
      else match_article_id cs)"

text \<open>\<^verbatim>\<open>x || ''\<close> for an optional string, and \<^verbatim>\<open>x ?? d\<close> for an optional value.\<close>

definition or_empty :: "string option \<Rightarrow> string" where
  "or_empty x = (case x of None \<Rightarrow> [] | Some s \<Rightarrow> s)"

definition nullish_or :: "'a option \<Rightarrow> 'a \<Rightarrow> 'a" where
  "nullish_or x d = (case x of None \<Rightarrow> d | Some v \<Rightarrow> v)"

text \<open>\<^verbatim>\<open>if (s)\<close> for an optional string: set and not empty.\<close>

definition truthy :: "string option \<Rightarrow> bool" where
  "truthy x = (case x of None \<Rightarrow> False | Some s \<Rightarrow> s \<noteq> [])"

section \<open>Configuration read from the process environment\<close>

type_synonym process_env = "string \<rightharpoonup> string"

text \<open>\<^verbatim>\<open>process.env.NAME || dflt\<close>: an unset or empty variable gives the default.\<close>

definition env_or :: "process_env \<Rightarrow> string \<Rightarrow> string \<Rightarrow> string" where
  "env_or env name dflt =
     (case env name of None \<Rightarrow> dflt | Some v \<Rightarrow> if v = [] then dflt else v)"

definition YOUTRACK_BASE_URL :: "process_env \<Rightarrow> string" where
  "YOUTRACK_BASE_URL env = env_or env ''YOUTRACK_BASE_URL'' []"

definition YOUTRACK_TOKEN :: "process_env \<Rightarrow> string" where
  "YOUTRACK_TOKEN env = env_or env ''YOUTRACK_TOKEN'' []"

definition GITHUB_TOKEN :: "process_env \<Rightarrow> string" where
  "GITHUB_TOKEN env = env_or env ''GITHUB_TOKEN'' []"

definition GITHUB_ORG :: "process_env \<Rightarrow> string" where
  "GITHUB_ORG env = env_or env ''GITHUB_ORG'' ''Realtyka''"

definition GITHUB_API_BASE :: string where
  "GITHUB_API_BASE = ''https://api.github.com''"

definition ZENDESK_API_BASE :: string where
  "ZENDESK_API_BASE = ''https://support.therealbrokerage.com/api/v2/help_center''"

section \<open>Requests, responses and thrown errors\<close>

text \<open>
  A thrown value is an \<^verbatim>\<open>Error\<close> with its message. An operation returns \<open>Inl\<close> of the
  error when it throws (its promise rejects) and \<open>Inr\<close> of its value otherwise. The state
  that is threaded through every operation is the list of the requests handed to
  \<^verbatim>\<open>fetch\<close> so far, oldest first.
\<close>

datatype exn = Error string

record request =
  url :: string
  searchParams :: "(string \<times> string) list"
  headers :: "(string \<times> string) list"

text \<open>
  What \<^verbatim>\<open>fetch\<close> gives back: a rejection, or a response with its status, the text
  of its body and what \<^verbatim>\<open>response.json()\<close> resolves to (or rejects with). The parsed
  body has the type the source gives it.
\<close>

record 'a response =
  status :: nat
  text_body :: string
  json_body :: "exn + 'a"

datatype 'a fetched = Rejected exn | Resolved "'a response"

definition ok :: "nat \<Rightarrow> bool" where
  "ok st = (200 \<le> st \<and> st \<le> 299)"

type_synonym 'a io = "request list \<Rightarrow> (exn + 'a) \<times> request list"

definition io_return :: "'a \<Rightarrow> 'a io" where
  "io_return v log = (Inr v, log)"

definition io_throw :: "exn \<Rightarrow> 'a io" where
  "io_throw e log = (Inl e, log)"

definition io_bind :: "'a io \<Rightarrow> ('a \<Rightarrow> 'b io) \<Rightarrow> 'b io" where
  "io_bind m f log =
     (case m log of (Inl e, log') \<Rightarrow> (Inl e, log') | (Inr v, log') \<Rightarrow> f v log')"

text \<open>A call of a library function that returns a value or throws, outside any handler.\<close>

definition io_of :: "exn + 'a \<Rightarrow> 'a io" where
  "io_of r log = (r, log)"

text \<open>\<^verbatim>\<open>try { body } catch (error) { handler }\<close>.\<close>

definition try_catch :: "'a io \<Rightarrow> (exn \<Rightarrow> 'a io) \<Rightarrow> 'a io" where
  "try_catch body handler log =
     (case body log of (Inl e, log') \<Rightarrow> handler e log' | (Inr v, log') \<Rightarrow> (Inr v, log'))"

text \<open>
  \<^verbatim>\<open>await fetch(url, {headers})\<close> against an upstream \<open>up\<close>, which answers a request
  knowing the requests made before it. The request is appended to the log.
\<close>

definition fetch :: "(request list \<Rightarrow> request \<Rightarrow> 'a fetched) \<Rightarrow> request \<Rightarrow> 'a response io" where
  "fetch up req log =
     (case up log req of
        Rejected e \<Rightarrow> (Inl e, log @ [req])
      | Resolved response \<Rightarrow> (Inr response, log @ [req]))"

text \<open>\<^verbatim>\<open>await response.json()\<close>.\<close>

definition response_json :: "'a response \<Rightarrow> 'a io" where
  "response_json response log = (json_body response, log)"

text \<open>\<^verbatim>\<open>url.searchParams.set(key, value)\<close> for each entry of \<open>params\<close>, in order.\<close>

fun searchParams_set :: "string \<Rightarrow> string \<Rightarrow> (string \<times> string) list \<Rightarrow> (string \<times> string) list" where
  "searchParams_set key v [] = [(key, v)]"
| "searchParams_set key v ((k, w) # ps) =
     (if k = key then (key, v) # filter (\<lambda>(k', _). k' \<noteq> key) ps
      else (k, w) # searchParams_set key v ps)"

definition set_all :: "(string \<times> string) list \<Rightarrow> (string \<times> string) list" where
  "set_all params = fold (\<lambda>(key, v) sp. searchParams_set key v sp) params []"

section \<open>The platform the adapters run on\<close>

text \<open>
  The knowledge-base entities, as the interface \<^verbatim>\<open>YouTrackArticle\<close> declares them. An
  optional field is an \<open>option\<close>.
\<close>

record article_ref =
  ref_id :: string
  ref_idReadable :: string
  ref_summary :: string

record project_ref =
  project_id :: string
  project_name :: string
  shortName :: string

record YouTrackArticle =
  article_id :: string
  idReadable :: string
  summary :: string
  content :: "string option"
  created :: "int option"
  updated :: "int option"
  project :: "project_ref option"
  parentArticle :: "article_ref option"
  childArticles :: "article_ref list option"

text \<open>The help-center entities (\<^verbatim>\<open>SupportArticle\<close>, \<^verbatim>\<open>ZendeskArticle\<close>).\<close>

record SupportArticle =
  title :: string
  support_url :: string
  snippet :: "string option"

record ZendeskArticle =
  zendesk_id :: int
  zendesk_title :: string
  html_url :: string
  body :: string
  zendesk_snippet :: "string option"
  section_id :: int
  label_names :: "string list"
  created_at :: string
  updated_at :: string

text \<open>
  The code-host entities (\<^verbatim>\<open>GitHubCodeMatch\<close>, \<^verbatim>\<open>GitHubRepoMatch\<close>) and the items
  of the upstream answers they are built from, every field of which may be missing.
\<close>

record GitHubCodeMatch =
  repository :: string
  filePath :: string
  match_url :: string
  textMatches :: "string list"

record GitHubRepoMatch =
  repo_name :: string
  fullName :: string
  description :: string
  language :: string
  repo_url :: string
  htmlUrl :: string

record code_item =
  item_repository_full_name :: "string option"
  item_path :: "string option"
  item_html_url :: "string option"
  item_text_matches :: "string option list option"

record repo_item =
  item_name :: "string option"
  item_full_name :: "string option"
  item_description :: "string option"
  item_language :: "string option"
  item_url :: "string option"
  item_repo_html_url :: "string option"

text \<open>A parsed HTML document, as the HTML library hands it to \<^verbatim>\<open>htmlToMarkdown\<close>.\<close>

datatype dom = Text string | Comment string | Element string "dom list"

text \<open>
  Everything the adapters use and this repository does not define: the upstream services,
  one per endpoint with the body type the source reads from it, and the library functions
  \<^verbatim>\<open>new URL\<close> (which throws on a string that is no URL), \<^verbatim>\<open>encodeURIComponent\<close>
  (which throws a \<^verbatim>\<open>URIError\<close> on a string with an unpaired surrogate, \<open>Inl\<close> here) and
  \<^verbatim>\<open>cheerio.load\<close>. In an upstream body, \<open>None\<close> is a JSON value of another shape:
  no array where a list is read, no \<^verbatim>\<open>results\<close> or \<^verbatim>\<open>items\<close> member, \<^verbatim>\<open>null\<close>
  for an article.
\<close>

record platform =
  valid_url :: "string \<Rightarrow> bool"
  encodeURIComponent :: "string \<Rightarrow> exn + string"
  cheerio_load :: "string \<Rightarrow> dom list"
  kb_articles :: "request list \<Rightarrow> request \<Rightarrow> YouTrackArticle list option fetched"
  kb_article :: "request list \<Rightarrow> request \<Rightarrow> YouTrackArticle option fetched"
  help_search :: "request list \<Rightarrow> request \<Rightarrow> ZendeskArticle list option fetched"
  help_article :: "request list \<Rightarrow> request \<Rightarrow> ZendeskArticle fetched"
  code_search :: "request list \<Rightarrow> request \<Rightarrow> code_item list option fetched"
  repo_search :: "request list \<Rightarrow> request \<Rightarrow> repo_item list option fetched"

section \<open>Knowledge-base adapter\<close>

definition getBaseUrl :: "process_env \<Rightarrow> string" where
  "getBaseUrl env =
     (let url = strip_trailing_slashes (YOUTRACK_BASE_URL env)
      in if \<not> endsWith url ''/api'' then url @ ''/api'' else url)"

definition youtrackFetch ::
  "process_env \<Rightarrow> platform \<Rightarrow> (request list \<Rightarrow> request \<Rightarrow> 'a fetched) \<Rightarrow> string
     \<Rightarrow> (string \<times> string) list \<Rightarrow> 'a io" where
  "youtrackFetch env pf up path params =
     (let base = getBaseUrl env in
      if \<not> valid_url pf (base @ path) then io_throw (Error ''Invalid URL'')
      else
        io_bind (fetch up \<lparr>url = base @ path, searchParams = set_all params,
                   headers = [(''Authorization'', ''Bearer '' @ YOUTRACK_TOKEN env),
                              (''Accept'', ''application/json''),
                              (''Content-Type'', ''application/json'')]\<rparr>)
          (\<lambda>response.
             if \<not> ok (status response)
             then io_throw (Error (''YouTrack API error '' @ nat_digits (status response)
                                     @ '': '' @ text_body response))
             else response_json response))"

definition search_fields :: string where
  "search_fields = ''id,idReadable,summary,content,created,updated,project(id,name,shortName),parentArticle(id,idReadable,summary)''"

definition article_fields :: string where
  "article_fields = ''id,idReadable,summary,content,created,updated,project(id,name,shortName),parentArticle(id,idReadable,summary),childArticles(id,idReadable,summary)''"

text \<open>A parameter with a default value: an omitted argument is \<open>None\<close>.\<close>

definition searchKBArticles ::
  "process_env \<Rightarrow> platform \<Rightarrow> string \<Rightarrow> int option \<Rightarrow> YouTrackArticle list io" where
  "searchKBArticles env pf query limit_arg =
     (let limit = nullish_or limit_arg 10 in
      try_catch
        (io_bind (youtrackFetch env pf (kb_articles pf) ''/articles''
                    [(''query'', query), (''fields'', search_fields), (''$top'', String_of limit)])
           (\<lambda>articles. io_return (case articles of Some as \<Rightarrow> as | None \<Rightarrow> [])))
        (\<lambda>error. io_return []))"

definition getKBArticle ::
  "process_env \<Rightarrow> platform \<Rightarrow> string \<Rightarrow> YouTrackArticle option io" where
  "getKBArticle env pf articleId =
     try_catch
       (io_bind (youtrackFetch env pf (kb_article pf) (''/articles/'' @ articleId)
                   [(''fields'', article_fields)])
          (\<lambda>article. io_return article))
       (\<lambda>error. io_return None)"

definition formatArticle :: "YouTrackArticle \<Rightarrow> string" where
  "formatArticle article =
     (let parts = [];
          parts = parts @ [''## '' @ summary article];
          parts = parts @ [''**ID:** '' @ idReadable article];
          parts = (case project article of
                     Some p \<Rightarrow> parts @ [''**Project:** '' @ project_name p @ '' ('' @ shortName p @ '')'']
                   | None \<Rightarrow> parts);
          parts = (case parentArticle article of
                     Some p \<Rightarrow> parts @ [''**Parent:** '' @ ref_summary p @ '' ('' @ ref_idReadable p @ '')'']
                   | None \<Rightarrow> parts);
          parts = (case childArticles article of
                     Some cs \<Rightarrow>
                       if length cs > 0
                       then parts @ [''**Sub-articles:** '' @
                              join '', '' (map (\<lambda>c. ref_summary c @ '' ('' @ ref_idReadable c @ '')'') cs)]
                       else parts
                   | None \<Rightarrow> parts);
          parts = (if truthy (content article)
                   then parts @ [[]] @ [or_empty (content article)]
                   else parts)
      in join [newline] parts)"

definition block_separator :: string where
  "block_separator = [newline, newline] @ ''---'' @ [newline, newline]"

text \<open>The identifier \<^verbatim>\<open>article.idReadable || article.id\<close> that the full fetch is given.\<close>

definition fetch_key :: "YouTrackArticle \<Rightarrow> string" where
  "fetch_key article =
     (if idReadable article \<noteq> [] then idReadable article else article_id article)"

text \<open>The loop of \<^verbatim>\<open>searchAndFetchArticles\<close>: one full fetch per hit, one after the other.\<close>

fun fetch_each ::
  "process_env \<Rightarrow> platform \<Rightarrow> YouTrackArticle list \<Rightarrow> string list \<Rightarrow> string list io" where
  "fetch_each env pf [] results = io_return results"
| "fetch_each env pf (article # rest) results =
     io_bind (getKBArticle env pf
                (fetch_key article))
       (\<lambda>fullArticle.
          fetch_each env pf rest
            (case fullArticle of
               Some full \<Rightarrow> results @ [formatArticle full]
             | None \<Rightarrow> results))"

definition searchAndFetchArticles ::
  "process_env \<Rightarrow> platform \<Rightarrow> string \<Rightarrow> int option \<Rightarrow> string io" where
  "searchAndFetchArticles env pf query maxArticles_arg =
     (let maxArticles = nullish_or maxArticles_arg 5 in
      io_bind (searchKBArticles env pf query (Some maxArticles))
        (\<lambda>articles.
           if length articles = 0
           then io_return ''No YouTrack knowledge base articles found for this query.''
           else io_bind (fetch_each env pf articles [])
                  (\<lambda>results. io_return (join block_separator results))))"

section \<open>Support-site adapter\<close>

subsection \<open>The HTML library calls of the normalizer\<close>

text \<open>
  \<^verbatim>\<open>$(selector)\<close> for a list of tag names: the elements of the document with one of
  these names, in document order. \<^verbatim>\<open>.remove()\<close> takes the selected elements out of the
  tree, \<^verbatim>\<open>.text()\<close> is the text of all text nodes below a node, and
  \<^verbatim>\<open>.children(selector).remove()\<close> takes out the selected direct children only.
\<close>

fun dom_select :: "string list \<Rightarrow> dom \<Rightarrow> dom list" where
  "dom_select names (Element tag children) =
     (if tag \<in> set names then [Element tag children] else [])
       @ concat (map (dom_select names) children)"
| "dom_select names (Text s) = []"
| "dom_select names (Comment s) = []"

fun dom_remove :: "string list \<Rightarrow> dom \<Rightarrow> dom list" where
  "dom_remove names (Element tag children) =
     (if tag \<in> set names then []
      else [Element tag (concat (map (dom_remove names) children))])"
| "dom_remove names (Text s) = [Text s]"
| "dom_remove names (Comment s) = [Comment s]"

fun dom_text :: "dom \<Rightarrow> string" where
  "dom_text (Text s) = s"
| "dom_text (Comment s) = []"
| "dom_text (Element tag children) = concat (map dom_text children)"

fun is_named :: "string list \<Rightarrow> dom \<Rightarrow> bool" where
  "is_named names (Element tag children) = (tag \<in> set names)"
| "is_named names (Text s) = False"
| "is_named names (Comment s) = False"

fun remove_children :: "string list \<Rightarrow> dom \<Rightarrow> dom" where
  "remove_children names (Element tag children) =
     Element tag (filter (\<lambda>c. \<not> is_named names c) children)"
| "remove_children names (Text s) = Text s"
| "remove_children names (Comment s) = Comment s"

fun tagName :: "dom \<Rightarrow> string" where
  "tagName (Element tag children) = tag"
| "tagName (Text s) = []"
| "tagName (Comment s) = []"

subsection \<open>htmlToMarkdown\<close>

text \<open>The body of the \<^verbatim>\<open>each\<close> callback: what one selected node adds to \<open>lines\<close>.\<close>

definition visit_node :: "dom \<Rightarrow> string list \<Rightarrow> string list" where
  "visit_node node lines =
     (let tag = toLowerCase (tagName node);
          text = trim (dom_text (remove_children
                   [''h1'', ''h2'', ''h3'', ''h4'', ''h5'', ''h6'', ''ul'', ''ol'', ''table'', ''blockquote'']
                   node))
      in if text = [] then lines
         else if tag = ''h1'' then lines @ [[newline] @ ''# '' @ text]
         else if tag = ''h2'' then lines @ [[newline] @ ''## '' @ text]
         else if tag = ''h3'' then lines @ [[newline] @ ''### '' @ text]
         else if tag = ''h4'' \<or> tag = ''h5'' \<or> tag = ''h6''
           then lines @ [[newline] @ ''**'' @ text @ ''**'']
         else if tag = ''li'' then lines @ [''- '' @ text]
         else if tag = ''blockquote'' then lines @ [''> '' @ text]
         else lines @ [text])"

text \<open>The body of the second loop: a line equal to the last one kept is dropped.\<close>

definition push_unless_repeated :: "string \<Rightarrow> string list \<Rightarrow> string list" where
  "push_unless_repeated line result =
     (if length result = 0 \<or> last result \<noteq> line then result @ [line] else result)"

definition emitted_lines :: "platform \<Rightarrow> string \<Rightarrow> string list" where
  "emitted_lines pf html =
     (let doc = cheerio_load pf html;
          doc = concat (map (dom_remove [''script'', ''style'']) doc);
          nodes = concat (map (dom_select
                    [''h1'', ''h2'', ''h3'', ''h4'', ''h5'', ''h6'', ''p'', ''li'', ''tr'', ''blockquote''])
                    doc)
      in fold visit_node nodes [])"

definition htmlToMarkdown :: "platform \<Rightarrow> string \<Rightarrow> string" where
  "htmlToMarkdown pf html =
     (let lines = emitted_lines pf html;
          result = fold push_unless_repeated lines []
      in trim (collapse_newlines (join [newline] result)))"

subsection \<open>Search and fetch\<close>

text \<open>
  In both searches of this adapter the search URL is built before the \<^verbatim>\<open>try\<close> block:
  an error that \<^verbatim>\<open>encodeURIComponent\<close> throws is not caught, and no request is made.
\<close>

definition searchSupportSite :: "platform \<Rightarrow> string \<Rightarrow> int option \<Rightarrow> SupportArticle list io" where
  "searchSupportSite pf query limit_arg =
     (let limit = nullish_or limit_arg 5 in
      io_bind (io_of (encodeURIComponent pf query))
        (\<lambda>encoded.
           let searchUrl = ZENDESK_API_BASE @ ''/articles/search.json?query=''
                             @ encoded @ ''&per_page='' @ String_of limit
           in try_catch
                (io_bind (fetch (help_search pf)
                            \<lparr>url = searchUrl, searchParams = [],
                             headers = [(''Accept'', ''application/json'')]\<rparr>)
                   (\<lambda>response.
                      if \<not> ok (status response)
                      then io_throw (Error (''Zendesk API returned '' @ nat_digits (status response)))
                      else io_bind (response_json response)
                             (\<lambda>data. io_return
                                (map (\<lambda>article. \<lparr>title = zendesk_title article,
                                                  support_url = html_url article,
                                                  snippet = zendesk_snippet article\<rparr>)
                                   (case data of Some results \<Rightarrow> results | None \<Rightarrow> [])))))
                (\<lambda>error. io_return [])))"

text \<open>
  The text block of one help-center article, built by the same statements in
  \<^verbatim>\<open>getSupportArticle\<close> and in \<^verbatim>\<open>searchAndFetchSupportArticles\<close>.
\<close>

definition support_block :: "platform \<Rightarrow> ZendeskArticle \<Rightarrow> string" where
  "support_block pf article =
     (let parts = [];
          parts = parts @ [''# '' @ zendesk_title article];
          parts = parts @ [''**Source:** '' @ html_url article];
          parts = (if length (label_names article) > 0
                   then parts @ [''**Labels:** '' @ join '', '' (label_names article)]
                   else parts);
          parts = (if body article \<noteq> []
                   then parts @ [[]] @ [htmlToMarkdown pf (body article)]
                   else parts)
      in join [newline] parts)"

definition message :: "exn \<Rightarrow> string" where
  "message e = (case e of Error m \<Rightarrow> m)"

definition getSupportArticle :: "platform \<Rightarrow> string \<Rightarrow> string io" where
  "getSupportArticle pf url_arg =
     try_catch
       (case match_article_id url_arg of
          None \<Rightarrow> io_return (''Could not extract article ID from URL: '' @ url_arg)
        | Some articleId \<Rightarrow>
            io_bind (fetch (help_article pf)
                       \<lparr>url = ZENDESK_API_BASE @ ''/articles/'' @ articleId @ ''.json'',
                        searchParams = [],
                        headers = [(''Accept'', ''application/json'')]\<rparr>)
              (\<lambda>response.
                 if \<not> ok (status response)
                 then io_throw (Error (''Zendesk API returned '' @ nat_digits (status response)))
                 else io_bind (response_json response)
                        (\<lambda>article. io_return (support_block pf article))))
       (\<lambda>error. io_return (''Error fetching article: '' @ message error))"

definition searchAndFetchSupportArticles :: "platform \<Rightarrow> string \<Rightarrow> int option \<Rightarrow> string io" where
  "searchAndFetchSupportArticles pf query maxArticles_arg =
     (let maxArticles = nullish_or maxArticles_arg 3 in
      io_bind (io_of (encodeURIComponent pf query))
        (\<lambda>encoded.
           let searchUrl = ZENDESK_API_BASE @ ''/articles/search.json?query=''
                             @ encoded @ ''&per_page='' @ String_of maxArticles
           in try_catch
                (io_bind (fetch (help_search pf)
                            \<lparr>url = searchUrl, searchParams = [],
                             headers = [(''Accept'', ''application/json'')]\<rparr>)
                   (\<lambda>response.
                      if \<not> ok (status response)
                      then io_throw (Error (''Zendesk API returned '' @ nat_digits (status response)))
                      else io_bind (response_json response)
                             (\<lambda>data.
                                let articles = (case data of Some results \<Rightarrow> results | None \<Rightarrow> [])
                                in if length articles = 0
                                   then io_return ''No support articles found for this query.''
                                   else io_return
                                          (join block_separator (map (support_block pf) articles)))))
                (\<lambda>error. io_return (''Error searching support articles: '' @ message error))))"

section \<open>Code-host adapter\<close>

definition isGitHubConfigured :: "process_env \<Rightarrow> bool" where
  "isGitHubConfigured env = (length (GITHUB_TOKEN env) > 0)"

definition githubFetch ::
  "process_env \<Rightarrow> platform \<Rightarrow> (request list \<Rightarrow> request \<Rightarrow> 'a fetched) \<Rightarrow> string
     \<Rightarrow> (string \<times> string) list \<Rightarrow> 'a io" where
  "githubFetch env pf up path params =
     (if \<not> valid_url pf (GITHUB_API_BASE @ path) then io_throw (Error ''Invalid URL'')
      else
        io_bind (fetch up \<lparr>url = GITHUB_API_BASE @ path, searchParams = set_all params,
                   headers = [(''Authorization'', ''Bearer '' @ GITHUB_TOKEN env),
                              (''Accept'', ''application/vnd.github.text-match+json''),
                              (''X-GitHub-Api-Version'', ''2022-11-28'')]\<rparr>)
          (\<lambda>response.
             if \<not> ok (status response)
             then io_throw (Error (''GitHub API error '' @ nat_digits (status response)
                                     @ '': '' @ text_body response))
             else response_json response))"

text \<open>\<^verbatim>\<open>targetOrg ? `${query} org:${targetOrg}` : query\<close> with \<^verbatim>\<open>targetOrg = org || GITHUB_ORG\<close>.\<close>

definition org_query :: "process_env \<Rightarrow> string \<Rightarrow> string option \<Rightarrow> string" where
  "org_query env query org =
     (let targetOrg = (if truthy org then or_empty org else GITHUB_ORG env)
      in if targetOrg \<noteq> [] then query @ '' org:'' @ targetOrg else query)"

definition searchGitHubCode ::
  "process_env \<Rightarrow> platform \<Rightarrow> string \<Rightarrow> string option \<Rightarrow> int option \<Rightarrow> GitHubCodeMatch list io" where
  "searchGitHubCode env pf query org limit_arg =
     (let limit = nullish_or limit_arg 10;
          fullQuery = org_query env query org
      in try_catch
           (io_bind (githubFetch env pf (code_search pf) ''/search/code''
                       [(''q'', fullQuery), (''per_page'', String_of limit)])
              (\<lambda>data.
                 let items = (case data of Some is \<Rightarrow> is | None \<Rightarrow> [])
                 in io_return
                      (map (\<lambda>item.
                              \<lparr>repository = or_empty (item_repository_full_name item),
                               filePath = or_empty (item_path item),
                               match_url = or_empty (item_html_url item),
                               textMatches =
                                 map (\<lambda>tm. substring0 300 (or_empty tm))
                                   (case item_text_matches item of Some tms \<Rightarrow> tms | None \<Rightarrow> [])\<rparr>)
                         items)))
           (\<lambda>error. io_return []))"

definition searchGitHubRepos ::
  "process_env \<Rightarrow> platform \<Rightarrow> string \<Rightarrow> string option \<Rightarrow> int option \<Rightarrow> GitHubRepoMatch list io" where
  "searchGitHubRepos env pf query org limit_arg =
     (let limit = nullish_or limit_arg 5;
          fullQuery = org_query env query org
      in try_catch
           (io_bind (githubFetch env pf (repo_search pf) ''/search/repositories''
                       [(''q'', fullQuery), (''per_page'', String_of limit), (''sort'', ''best-match'')])
              (\<lambda>data.
                 let items = (case data of Some is \<Rightarrow> is | None \<Rightarrow> [])
                 in io_return
                      (map (\<lambda>item.
                              \<lparr>repo_name = or_empty (item_name item),
                               fullName = or_empty (item_full_name item),
                               description = or_empty (item_description item),
                               language = or_empty (item_language item),
                               repo_url = or_empty (item_url item),
                               htmlUrl = or_empty (item_repo_html_url item)\<rparr>)
                         items)))
           (\<lambda>error. io_return []))"

definition not_configured_sentence :: string where
  "not_configured_sentence =
     ''GitHub search is not configured (GITHUB_TOKEN not set). Skipping code search.''"

text \<open>The bodies of the two \<^verbatim>\<open>for\<close> loops that fill \<open>parts\<close>.\<close>

definition push_repo :: "GitHubRepoMatch \<Rightarrow> string list \<Rightarrow> string list" where
  "push_repo repo parts =
     (let desc = (if description repo \<noteq> [] then '' - '' @ description repo else []);
          lang = (if language repo \<noteq> [] then '' ['' @ language repo @ '']'' else []);
          parts = parts @ [''- **'' @ fullName repo @ ''**'' @ lang @ desc]
      in parts @ [''  '' @ htmlUrl repo])"

definition push_match :: "GitHubCodeMatch \<Rightarrow> string list \<Rightarrow> string list" where
  "push_match m parts =
     (let parts = parts @ [''### '' @ repository m @ '' / '' @ filePath m];
          parts = parts @ [match_url m];
          parts = (if length (textMatches m) > 0
                   then parts @ [''```'']
                          @ [join ([newline] @ ''...'' @ [newline]) (textMatches m)]
                          @ [''```'']
                   else parts)
      in parts @ [[]])"

definition render_github :: "GitHubCodeMatch list \<Rightarrow> GitHubRepoMatch list \<Rightarrow> string" where
  "render_github codeResults repoResults =
     (let parts = [];
          parts = (if length repoResults > 0
                   then fold push_repo repoResults (parts @ [''## Relevant Repositories''] @ [[]])
                   else parts @ [''No matching repositories found.'']);
          parts = parts @ [[]];
          parts = (if length codeResults > 0
                   then fold push_match codeResults (parts @ [''## Code Matches''] @ [[]])
                   else parts @ [''No matching code found.''])
      in join [newline] parts)"

text \<open>
  \<^verbatim>\<open>Promise.all\<close> of the two searches: both are started, the code search first, and
  both are awaited; the first rejection in this order is the rejection of the whole.
\<close>

definition searchAndFetchGitHubResults ::
  "process_env \<Rightarrow> platform \<Rightarrow> string \<Rightarrow> string option \<Rightarrow> string io" where
  "searchAndFetchGitHubResults env pf query org =
     (if \<not> isGitHubConfigured env then io_return not_configured_sentence
      else
        io_bind (\<lambda>log.
                   case searchGitHubCode env pf query org (Some 10) log of
                     (code, log1) \<Rightarrow>
                       (case searchGitHubRepos env pf query org (Some 5) log1 of
                          (repos, log2) \<Rightarrow>
                            (case code of
                               Inl e \<Rightarrow> (Inl e, log2)
                             | Inr codeResults \<Rightarrow>
                                 (case repos of
                                    Inl e \<Rightarrow> (Inl e, log2)
                                  | Inr repoResults \<Rightarrow> (Inr (codeResults, repoResults), log2)))))
          (\<lambda>(codeResults, repoResults). io_return (render_github codeResults repoResults)))"

section \<open>Tools\<close>

text \<open>
  A tool handler returns one text, the \<^verbatim>\<open>text\<close> of the single content item of its
  result. An optional tool argument that was not supplied is \<open>None\<close>.
\<close>

text \<open>
  \<^verbatim>\<open>Promise.all(promises)\<close>: every task runs to its end, in the order of dispatch; the
  result is the list of their values, or the first rejection in this order.
\<close>

fun Promise_all :: "'a io list \<Rightarrow> 'a list io" where
  "Promise_all [] log = (Inr [], log)"
| "Promise_all (p # ps) log =
     (case p log of
        (r, log1) \<Rightarrow>
          (case Promise_all ps log1 of
             (rs, log2) \<Rightarrow>
               (case r of
                  Inl e \<Rightarrow> (Inl e, log2)
                | Inr v \<Rightarrow> (case rs of Inl e \<Rightarrow> (Inl e, log2) | Inr vs \<Rightarrow> (Inr (v # vs), log2)))))"

text \<open>\<^verbatim>\<open>const [a, b, c] = array\<close>: a missing position is \<^verbatim>\<open>undefined\<close>.\<close>

definition element_at :: "'a list \<Rightarrow> nat \<Rightarrow> 'a option" where
  "element_at xs i = (if i < length xs then Some (xs ! i) else None)"

definition ask_product_question ::
  "process_env \<Rightarrow> platform \<Rightarrow> string \<Rightarrow> int option \<Rightarrow> int option \<Rightarrow> bool option \<Rightarrow> string io" where
  "ask_product_question env pf question max_kb_articles max_support_articles include_github =
     (let kbLimit = nullish_or max_kb_articles 5;
          supportLimit = nullish_or max_support_articles 3;
          shouldSearchGitHub = nullish_or include_github (isGitHubConfigured env);
          promises = [searchAndFetchArticles env pf question (Some kbLimit),
                      searchAndFetchSupportArticles pf question (Some supportLimit)];
          promises = (if shouldSearchGitHub \<and> isGitHubConfigured env
                      then promises @ [searchAndFetchGitHubResults env pf question None]
                      else promises)
      in io_bind (Promise_all promises)
           (\<lambda>contents.
              let kbContent = element_at contents 0;
                  supportContent = element_at contents 1;
                  githubContent = element_at contents 2
              in io_return
                   (join [newline]
                      [''# YouTrack Knowledge Base Results'',
                       [],
                       or_empty kbContent,
                       [],
                       ''---'',
                       [],
                       ''# Support Site Results'',
                       [],
                       or_empty supportContent,
                       [],
                       ''---'',
                       [],
                       ''# GitHub Code Search Results'',
                       [],
                       (if truthy githubContent then or_empty githubContent
                        else not_configured_sentence)])))"

definition search_kb_articles ::
  "process_env \<Rightarrow> platform \<Rightarrow> string \<Rightarrow> int option \<Rightarrow> string io" where
  "search_kb_articles env pf query limit =
     io_bind (searchKBArticles env pf query (Some (nullish_or limit 10)))
       (\<lambda>articles.
          if length articles = 0 then io_return ''No knowledge base articles found.''
          else io_return
                 (join [newline, newline]
                    (map (\<lambda>a.
                            let parts = [''**'' @ summary a @ ''** ('' @ idReadable a @ '')''];
                                parts = (case project a of
                                           Some p \<Rightarrow> parts @ [''  Project: '' @ project_name p]
                                         | None \<Rightarrow> parts);
                                parts = (case parentArticle a of
                                           Some p \<Rightarrow> parts @ [''  Parent: '' @ ref_summary p]
                                         | None \<Rightarrow> parts);
                                parts = (if truthy (content a)
                                         then parts @ [''  '' @ newlines_to_spaces
                                                         (substring0 200 (or_empty (content a))) @ ''...'']
                                         else parts)
                            in join [newline] parts)
                       articles)))"

definition search_support_site :: "platform \<Rightarrow> string \<Rightarrow> int option \<Rightarrow> string io" where
  "search_support_site pf query limit =
     io_bind (searchSupportSite pf query (Some (nullish_or limit 5)))
       (\<lambda>articles.
          if length articles = 0 then io_return ''No support articles found.''
          else io_return
                 (join [newline, newline]
                    (map (\<lambda>a.
                            let parts = [''**'' @ title a @ ''**'', ''  '' @ support_url a];
                                parts = (if truthy (snippet a)
                                         then parts @ [''  '' @ or_empty (snippet a)]
                                         else parts)
                            in join [newline] parts)
                       articles)))"

definition get_support_article :: "platform \<Rightarrow> string \<Rightarrow> string io" where
  "get_support_article pf url_arg = getSupportArticle pf url_arg"

definition search_github_code ::
  "process_env \<Rightarrow> platform \<Rightarrow> string \<Rightarrow> string option \<Rightarrow> int option \<Rightarrow> string io" where
  "search_github_code env pf query org limit =
     (if \<not> isGitHubConfigured env
      then io_return ''GitHub search is not configured. Set GITHUB_TOKEN environment variable to enable this tool.''
      else
        io_bind (searchGitHubCode env pf query org (Some (nullish_or limit 10)))
          (\<lambda>results.
             if length results = 0 then io_return ''No code matches found.''
             else io_return
                    (join [newline, newline]
                       (map (\<lambda>m.
                               let parts = [''**'' @ repository m @ ''** / `'' @ filePath m @ ''`''];
                                   parts = parts @ [''  '' @ match_url m];
                                   parts = (if length (textMatches m) > 0
                                            then parts @ [''```'']
                                                   @ [join ([newline] @ ''...'' @ [newline]) (textMatches m)]
                                                   @ [''```'']
                                            else parts)
                               in join [newline] parts)
                          results))))"

section \<open>Vocabulary of the properties\<close>

text \<open>An upstream call fails: \<^verbatim>\<open>fetch\<close> rejects, or the response is not a 2xx.\<close>

definition failed :: "'a fetched \<Rightarrow> bool" where
  "failed f = (case f of Rejected e \<Rightarrow> True | Resolved response \<Rightarrow> \<not> ok (status response))"

definition upstream_down :: "platform \<Rightarrow> bool" where
  "upstream_down pf =
     (\<forall>log req.
        failed (kb_articles pf log req) \<and> failed (kb_article pf log req)
        \<and> failed (help_search pf log req) \<and> failed (help_article pf log req)
        \<and> failed (code_search pf log req) \<and> failed (repo_search pf log req))"

section \<open>Sample configurations and upstreams\<close>

definition sample_env :: process_env where
  "sample_env = [''YOUTRACK_BASE_URL'' \<mapsto> ''https://yt.example/'', ''YOUTRACK_TOKEN'' \<mapsto> ''perm:abc'',
                 ''GITHUB_TOKEN'' \<mapsto> ''ghp_abc'']"

text \<open>Every upstream is out of order: one rejects, the others answer 404 or 503.\<close>

definition down_platform :: platform where
  "down_platform =
     \<lparr>valid_url = (\<lambda>u. True),
      encodeURIComponent = (\<lambda>s. Inr s),
      cheerio_load = (\<lambda>html. []),
      kb_articles = (\<lambda>log req. Rejected (Error ''fetch failed'')),
      kb_article = (\<lambda>log req. Resolved \<lparr>status = 404, text_body = ''Not Found'',
                                          json_body = Inl (Error ''Unexpected token'')\<rparr>),
      help_search = (\<lambda>log req. Resolved \<lparr>status = 503, text_body = [],
                                           json_body = Inl (Error ''Unexpected end of JSON input'')\<rparr>),
      help_article = (\<lambda>log req. Rejected (Error ''fetch failed'')),
      code_search = (\<lambda>log req. Resolved \<lparr>status = 403, text_body = ''rate limit'',
                                           json_body = Inl (Error ''Unexpected token'')\<rparr>),
      repo_search = (\<lambda>log req. Rejected (Error ''fetch failed''))\<rparr>"

definition sample_article :: YouTrackArticle where
  "sample_article =
     \<lparr>article_id = ''1-1'', idReadable = ''RV2-A-1'', summary = ''Commissions'',
      content = None, created = None, updated = None, project = None,
      parentArticle = None, childArticles = None\<rparr>"

text \<open>The knowledge-base search finds one article; every other upstream is out of order.\<close>

definition hits_platform :: platform where
  "hits_platform =
     down_platform\<lparr>kb_articles :=
       (\<lambda>log req. Resolved \<lparr>status = 200, text_body = [],
                              json_body = Inr (Some [sample_article])\<rparr>)\<rparr>"

text \<open>
  A query with an unpaired surrogate. A \<^typ>\<open>char\<close> holds a code unit below 256, so the
  string below only stands for the one-unit query U+D800 (in JSON, a backslash and
  \<open>ud800\<close>); on \<open>malformed_platform\<close> it is the query that \<^verbatim>\<open>encodeURIComponent\<close>
  rejects, with the message the runtime gives. Every upstream is out of order there.
\<close>

definition unpaired_surrogate_query :: string where
  "unpaired_surrogate_query = ''<U+D800>''"

definition malformed_platform :: platform where
  "malformed_platform =
     down_platform\<lparr>encodeURIComponent :=
       (\<lambda>s. if s = unpaired_surrogate_query then Inl (Error ''URI malformed'') else Inr s)\<rparr>"

text \<open>The request of a knowledge-base search under \<open>sample_env\<close>, for a page size.\<close>

definition sample_kb_request :: "string \<Rightarrow> string \<Rightarrow> request" where
  "sample_kb_request query page_size =
     \<lparr>url = ''https://yt.example/api/articles'',
      searchParams = [(''query'', query), (''fields'', search_fields), (''$top'', page_size)],
      headers = [(''Authorization'', ''Bearer perm:abc''),
                 (''Accept'', ''application/json''),
                 (''Content-Type'', ''application/json'')]\<rparr>"

section \<open>The two sections of the code-host text, as the specification words them\<close>

text \<open>
  The section of relevant repositories: its fallback line when there is no repository,
  otherwise a heading, an empty line and two lines per repository.
\<close>

definition repo_lines :: "GitHubRepoMatch \<Rightarrow> string list" where
  "repo_lines repo =
     [''- **'' @ fullName repo @ ''**''
        @ (if language repo \<noteq> [] then '' ['' @ language repo @ '']'' else [])
        @ (if description repo \<noteq> [] then '' - '' @ description repo else []),
      ''  '' @ htmlUrl repo]"

definition repositories_section :: "GitHubRepoMatch list \<Rightarrow> string" where
  "repositories_section repos =
     (if repos = [] then ''No matching repositories found.''
      else join [newline] ([''## Relevant Repositories'', []] @ concat (map repo_lines repos)))"

text \<open>
  The section of code matches: its fallback line when there is no match, otherwise a
  heading, an empty line and one block per match, each closed by an empty line.
\<close>

definition match_lines :: "GitHubCodeMatch \<Rightarrow> string list" where
  "match_lines m =
     [''### '' @ repository m @ '' / '' @ filePath m, match_url m]
       @ (if textMatches m = [] then []
          else [''```'', join ([newline] @ ''...'' @ [newline]) (textMatches m), ''```''])
       @ [[]]"

definition code_section :: "GitHubCodeMatch list \<Rightarrow> string" where
  "code_section matches =
     (if matches = [] then ''No matching code found.''
      else join [newline] ([''## Code Matches'', []] @ concat (map match_lines matches)))"

text \<open>The request that \<open>githubFetch\<close> hands to \<^verbatim>\<open>fetch\<close>.\<close>

definition github_request :: "process_env \<Rightarrow> string \<Rightarrow> (string \<times> string) list \<Rightarrow> request" where
  "github_request env path params =
     \<lparr>url = GITHUB_API_BASE @ path, searchParams = params,
      headers = [(''Authorization'', ''Bearer '' @ GITHUB_TOKEN env),
                 (''Accept'', ''application/vnd.github.text-match+json''),
                 (''X-GitHub-Api-Version'', ''2022-11-28'')]\<rparr>"

text \<open>The repository search finds one repository; every other upstream is out of order.\<close>

definition sample_repo_item :: repo_item where
  "sample_repo_item =
     \<lparr>item_name = Some ''keymaker'', item_full_name = Some ''Realtyka/keymaker'',
      item_description = None, item_language = Some ''Java'',
      item_url = Some ''https://api.github.com/repos/Realtyka/keymaker'',
      item_repo_html_url = Some ''https://github.com/Realtyka/keymaker''\<rparr>"

definition repos_platform :: platform where
  "repos_platform =
     down_platform\<lparr>repo_search :=
       (\<lambda>log req. Resolved \<lparr>status = 200, text_body = [],
                              json_body = Inr (Some [sample_repo_item])\<rparr>)\<rparr>"

section \<open>The text of the aggregator, as the specification words it\<close>

text \<open>
  Three sections in fixed order, each under its heading, with a separator line between
  them: the knowledge base, the support site, the code host.
\<close>

definition merged_text :: "string \<Rightarrow> string \<Rightarrow> string \<Rightarrow> string" where
  "merged_text kb support third =
     ''# YouTrack Knowledge Base Results'' @ [newline, newline] @ kb @ [newline, newline]
       @ ''---'' @ [newline, newline]
       @ ''# Support Site Results'' @ [newline, newline] @ support @ [newline, newline]
       @ ''---'' @ [newline, newline]
       @ ''# GitHub Code Search Results'' @ [newline, newline] @ third"

text \<open>The text the claim describes when inclusion resolves false: no third section.\<close>

definition two_section_text :: "string \<Rightarrow> string \<Rightarrow> string" where
  "two_section_text kb support =
     ''# YouTrack Knowledge Base Results'' @ [newline, newline] @ kb @ [newline, newline]
       @ ''---'' @ [newline, newline]
       @ ''# Support Site Results'' @ [newline, newline] @ support"

section \<open>The requests of the searches\<close>

text \<open>The request that \<open>youtrackFetch\<close> hands to \<^verbatim>\<open>fetch\<close>.\<close>

definition youtrack_request :: "process_env \<Rightarrow> string \<Rightarrow> (string \<times> string) list \<Rightarrow> request" where
  "youtrack_request env path params =
     \<lparr>url = getBaseUrl env @ path, searchParams = params,
      headers = [(''Authorization'', ''Bearer '' @ YOUTRACK_TOKEN env),
                 (''Accept'', ''application/json''),
                 (''Content-Type'', ''application/json'')]\<rparr>"

text \<open>The search request of the knowledge base, for a page size \<open>$top\<close>.\<close>

definition kb_search_request :: "process_env \<Rightarrow> string \<Rightarrow> string \<Rightarrow> request" where
  "kb_search_request env query page_size =
     youtrack_request env ''/articles''
       [(''query'', query), (''fields'', search_fields), (''$top'', page_size)]"

text \<open>
  The search request of the help center, for an encoded query and a page size
  \<open>per_page\<close>.
\<close>

definition help_search_request :: "string \<Rightarrow> string \<Rightarrow> request" where
  "help_search_request encoded page_size =
     \<lparr>url = ZENDESK_API_BASE @ ''/articles/search.json?query='' @ encoded
              @ ''&per_page='' @ page_size,
      searchParams = [], headers = [(''Accept'', ''application/json'')]\<rparr>"

text \<open>The requests an operation makes after the query was encoded, none if that threw.\<close>

definition after_encoding :: "exn + string \<Rightarrow> (string \<Rightarrow> request list) \<Rightarrow> request list" where
  "after_encoding r reqs = (case r of Inl e \<Rightarrow> [] | Inr encoded \<Rightarrow> reqs encoded)"

text \<open>The code search request of the code host, for a page size \<open>per_page\<close>.\<close>

definition code_search_request :: "process_env \<Rightarrow> string \<Rightarrow> string option \<Rightarrow> string \<Rightarrow> request" where
  "code_search_request env query org page_size =
     github_request env ''/search/code''
       [(''q'', org_query env query org), (''per_page'', page_size)]"

section \<open>Runs of line feeds\<close>



section \<open>A sample document\<close>




section \<open>Properties of the base URL\<close>

lemma endsWith_append: "endsWith (p @ suf) suf"
  by (simp add: endsWith_def)

lemma endsWith_iff: "endsWith s suf \<longleftrightarrow> (\<exists>p. s = p @ suf)"
proof
  assume "endsWith s suf"
  then have "s = take (length s - length suf) s @ suf"
    by (metis append_take_drop_id endsWith_def)
  then show "\<exists>p. s = p @ suf" ..
next
  assume "\<exists>p. s = p @ suf"
  then show "endsWith s suf" by (auto simp: endsWith_append)
qed

lemma strip_trailing_slashes_decomp:
  "\<exists>n. s = strip_trailing_slashes s @ replicate n (CHR ''/'')"
proof -
  let ?P = "\<lambda>c. c = CHR ''/''"
  have "rev s = takeWhile ?P (rev s) @ dropWhile ?P (rev s)" by simp
  then have "s = rev (dropWhile ?P (rev s)) @ rev (takeWhile ?P (rev s))"
    by (metis rev_append rev_rev_ident)
  moreover have "rev (takeWhile ?P (rev s)) = replicate (length (takeWhile ?P (rev s))) (CHR ''/'')"
    by (rule replicate_eqI) (auto dest: set_takeWhileD)
  ultimately show ?thesis
    unfolding strip_trailing_slashes_def by metis
qed

lemma rev_snoc_hd:
  assumes "rev d = p @ [c]"
  shows "d = c # rev p"
proof -
  from assms have "rev (rev d) = rev (p @ [c])" by (rule arg_cong)
  then show ?thesis by simp
qed

lemma strip_trailing_slashes_no_slash:
  "\<not> endsWith (strip_trailing_slashes s) ''/''"
proof
  let ?d = "dropWhile (\<lambda>c. c = CHR ''/'') (rev s)"
  assume "endsWith (strip_trailing_slashes s) ''/''"
  then have "\<exists>p. rev ?d = p @ ''/''"
    unfolding strip_trailing_slashes_def endsWith_iff by assumption
  then obtain p where p: "rev ?d = p @ ''/''" ..
  have d: "?d = CHR ''/'' # rev p" by (rule rev_snoc_hd [OF p])
  have "hd ?d \<noteq> CHR ''/''"
    using hd_dropWhile [of "\<lambda>c. c = CHR ''/''" "rev s"] d by simp
  with d show False by simp
qed

lemma strip_trailing_slashes_id:
  "\<not> endsWith s ''/'' \<Longrightarrow> strip_trailing_slashes s = s"
proof -
  assume a: "\<not> endsWith s ''/''"
  show ?thesis
  proof (cases "rev s")
    case Nil
    then show ?thesis by (simp add: strip_trailing_slashes_def)
  next
    case (Cons c cs)
    then have s: "s = rev cs @ [c]" by (metis rev.simps(2) rev_rev_ident)
    with a have "c \<noteq> CHR ''/''" by (auto simp: endsWith_iff)
    with Cons show ?thesis by (simp add: strip_trailing_slashes_def s)
  qed
qed

lemma endsWith_api_no_slash: "endsWith s ''/api'' \<Longrightarrow> \<not> endsWith s ''/''"
  by (auto simp: endsWith_iff)

lemma getBaseUrl_endsWith_api: "endsWith (getBaseUrl env) ''/api''"
  by (auto simp: getBaseUrl_def Let_def endsWith_iff)

lemma YOUTRACK_BASE_URL_update:
  "YOUTRACK_BASE_URL (env(''YOUTRACK_BASE_URL'' \<mapsto> v)) = v"
  by (simp add: YOUTRACK_BASE_URL_def env_or_def)

text \<open>
  C8. For every configured base URL, \<open>getBaseUrl\<close> is the configured string without its
  trailing slashes (the string is the result followed by slashes only, and the stripped
  string does not end in a slash), left as it is when that already ends with \<open>/api\<close> and
  extended by \<open>/api\<close> once otherwise; configuring the result again gives the same result.
\<close>

theorem getBaseUrl_normalizes:
  "\<exists>s n. YOUTRACK_BASE_URL env = s @ replicate n (CHR ''/'')
       \<and> \<not> endsWith s ''/''
       \<and> getBaseUrl env = (if endsWith s ''/api'' then s else s @ ''/api'')
       \<and> endsWith (getBaseUrl env) ''/api''
       \<and> getBaseUrl (env(''YOUTRACK_BASE_URL'' \<mapsto> getBaseUrl env)) = getBaseUrl env"
proof -
  let ?s = "strip_trailing_slashes (YOUTRACK_BASE_URL env)"
  obtain n where n: "YOUTRACK_BASE_URL env = ?s @ replicate n (CHR ''/'')"
    using strip_trailing_slashes_decomp by blast
  have ns: "\<not> endsWith ?s ''/''" by (rule strip_trailing_slashes_no_slash)
  have g: "getBaseUrl env = (if endsWith ?s ''/api'' then ?s else ?s @ ''/api'')"
    by (simp add: getBaseUrl_def Let_def)
  have e: "endsWith (getBaseUrl env) ''/api''" by (rule getBaseUrl_endsWith_api)
  have "strip_trailing_slashes (getBaseUrl env) = getBaseUrl env"
    using e by (intro strip_trailing_slashes_id endsWith_api_no_slash)
  then have i: "getBaseUrl (env(''YOUTRACK_BASE_URL'' \<mapsto> getBaseUrl env)) = getBaseUrl env"
    using e by (simp add: getBaseUrl_def [of "env(_ \<mapsto> _)"] YOUTRACK_BASE_URL_update)
  from n ns g e i show ?thesis by blast
qed

theorem getBaseUrl_normalizes_witness:
  "getBaseUrl [''YOUTRACK_BASE_URL'' \<mapsto> ''https://yt.example/api//''] = ''https://yt.example/api''
   \<and> getBaseUrl [''YOUTRACK_BASE_URL'' \<mapsto> ''https://yt.example/''] = ''https://yt.example/api''
   \<and> (\<exists>s n. YOUTRACK_BASE_URL [''YOUTRACK_BASE_URL'' \<mapsto> ''https://yt.example/''] = s @ replicate n (CHR ''/'')
       \<and> \<not> endsWith s ''/'')"
  using getBaseUrl_normalizes [of "[''YOUTRACK_BASE_URL'' \<mapsto> ''https://yt.example/'']"]
  by (auto simp: getBaseUrl_def YOUTRACK_BASE_URL_def env_or_def strip_trailing_slashes_def endsWith_def)

section \<open>Thrown errors stop at the adapter boundary\<close>

lemma try_catch_returns:
  assumes "\<And>e. \<exists>v. handler e = io_return v"
  shows "\<exists>v log'. try_catch m handler log = (Inr v, log')"
proof (cases "m log")
  case (Pair r log1)
  show ?thesis
  proof (cases r)
    case (Inl e)
    from assms obtain v where "handler e = io_return v" by blast
    with Pair Inl show ?thesis by (simp add: try_catch_def io_return_def)
  next
    case (Inr v)
    with Pair show ?thesis by (simp add: try_catch_def)
  qed
qed

lemma io_bind_returns:
  assumes "m log = (Inr v, log1)" and "f v log1 = (Inr w, log2)"
  shows "io_bind m f log = (Inr w, log2)"
  using assms by (simp add: io_bind_def)

lemma searchKBArticles_returns:
  "\<exists>v log'. searchKBArticles env pf query limit log = (Inr v, log')"
  unfolding searchKBArticles_def Let_def
  by (rule try_catch_returns) blast

lemma getKBArticle_returns:
  "\<exists>v log'. getKBArticle env pf articleId log = (Inr v, log')"
  unfolding getKBArticle_def
  by (rule try_catch_returns) blast

lemma fetch_each_returns:
  "\<exists>v log'. fetch_each env pf articles results log = (Inr v, log')"
proof (induction articles arbitrary: results log)
  case Nil
  show ?case by (simp add: io_return_def)
next
  case (Cons article rest)
  let ?key = "fetch_key article"
  obtain full log1 where g: "getKBArticle env pf ?key log = (Inr full, log1)"
    using getKBArticle_returns by blast
  let ?results = "case full of Some a \<Rightarrow> results @ [formatArticle a] | None \<Rightarrow> results"
  obtain v log2 where "fetch_each env pf rest ?results log1 = (Inr v, log2)"
    using Cons.IH by blast
  with g have "fetch_each env pf (article # rest) results log = (Inr v, log2)"
    by (simp add: io_bind_def)
  then show ?case by blast
qed

lemma searchAndFetchArticles_returns:
  "\<exists>v log'. searchAndFetchArticles env pf query maxArticles log = (Inr v, log')"
proof -
  obtain articles log1
    where s: "searchKBArticles env pf query (Some (nullish_or maxArticles 5)) log = (Inr articles, log1)"
    using searchKBArticles_returns by blast
  obtain results log2 where f: "fetch_each env pf articles [] log1 = (Inr results, log2)"
    using fetch_each_returns by blast
  show ?thesis
  proof (cases "length articles = 0")
    case True
    with s show ?thesis
      by (simp add: searchAndFetchArticles_def Let_def io_bind_def io_return_def)
  next
    case False
    with s f show ?thesis
      by (simp add: searchAndFetchArticles_def Let_def io_bind_def io_return_def)
  qed
qed

lemma io_bind_io_of_value:
  assumes "r = Inr v"
  shows "io_bind (io_of r) f = f v"
  using assms by (auto simp: io_bind_def io_of_def)

lemma io_bind_io_of_thrown:
  assumes "r = Inl e"
  shows "io_bind (io_of r) f log = (Inl e, log)"
  using assms by (simp add: io_bind_def io_of_def)

lemma searchSupportSite_returns:
  assumes "encodeURIComponent pf query = Inr encoded"
  shows "\<exists>v log'. searchSupportSite pf query limit log = (Inr v, log')"
  unfolding searchSupportSite_def Let_def io_bind_io_of_value [OF assms]
  by (rule try_catch_returns) blast

lemma searchAndFetchSupportArticles_returns:
  assumes "encodeURIComponent pf query = Inr encoded"
  shows "\<exists>v log'. searchAndFetchSupportArticles pf query maxArticles log = (Inr v, log')"
  unfolding searchAndFetchSupportArticles_def Let_def io_bind_io_of_value [OF assms]
  by (rule try_catch_returns) blast

lemma searchSupportSite_throws:
  assumes "encodeURIComponent pf query = Inl e"
  shows "searchSupportSite pf query limit log = (Inl e, log)"
  unfolding searchSupportSite_def Let_def by (rule io_bind_io_of_thrown [OF assms])

lemma searchAndFetchSupportArticles_throws:
  assumes "encodeURIComponent pf query = Inl e"
  shows "searchAndFetchSupportArticles pf query maxArticles log = (Inl e, log)"
  unfolding searchAndFetchSupportArticles_def Let_def by (rule io_bind_io_of_thrown [OF assms])

lemma searchGitHubCode_returns:
  "\<exists>v log'. searchGitHubCode env pf query org limit log = (Inr v, log')"
  unfolding searchGitHubCode_def Let_def
  by (rule try_catch_returns) blast

lemma searchGitHubRepos_returns:
  "\<exists>v log'. searchGitHubRepos env pf query org limit log = (Inr v, log')"
  unfolding searchGitHubRepos_def Let_def
  by (rule try_catch_returns) blast

lemma searchAndFetchGitHubResults_configured:
  assumes "isGitHubConfigured env"
    and "searchGitHubCode env pf query org (Some 10) log = (Inr codeResults, log1)"
    and "searchGitHubRepos env pf query org (Some 5) log1 = (Inr repoResults, log2)"
  shows "searchAndFetchGitHubResults env pf query org log
           = (Inr (render_github codeResults repoResults), log2)"
  using assms by (simp add: searchAndFetchGitHubResults_def io_bind_def io_return_def)

lemma searchAndFetchGitHubResults_returns:
  "\<exists>v log'. searchAndFetchGitHubResults env pf query org log = (Inr v, log')"
proof (cases "isGitHubConfigured env")
  case False
  then show ?thesis by (simp add: searchAndFetchGitHubResults_def io_return_def)
next
  case True
  obtain c log1 where c: "searchGitHubCode env pf query org (Some 10) log = (Inr c, log1)"
    using searchGitHubCode_returns by blast
  obtain r log2 where r: "searchGitHubRepos env pf query org (Some 5) log1 = (Inr r, log2)"
    using searchGitHubRepos_returns by blast
  from searchAndFetchGitHubResults_configured [OF True c r] show ?thesis by blast
qed

section \<open>What a failing upstream call turns into\<close>

lemma fetch_failed:
  assumes "failed (up log req)"
  shows "(\<exists>e. fetch up req log = (Inl e, log @ [req]))
         \<or> (\<exists>r. fetch up req log = (Inr r, log @ [req]) \<and> \<not> ok (status r))"
  using assms by (cases "up log req") (auto simp: failed_def fetch_def)

lemma fetch_log: "snd (fetch up req log) = log @ [req]"
  by (cases "up log req") (auto simp: fetch_def)

lemma youtrackFetch_failed:
  assumes "\<forall>l r. failed (up l r)"
  shows "\<exists>e log'. youtrackFetch env pf up path params log = (Inl e, log')"
proof (cases "valid_url pf (getBaseUrl env @ path)")
  case False
  then show ?thesis by (simp add: youtrackFetch_def Let_def io_throw_def)
next
  case True
  let ?req = "\<lparr>url = getBaseUrl env @ path, searchParams = set_all params,
                headers = [(''Authorization'', ''Bearer '' @ YOUTRACK_TOKEN env),
                           (''Accept'', ''application/json''),
                           (''Content-Type'', ''application/json'')]\<rparr>"
  from assms have "failed (up log ?req)" by blast
  with fetch_failed [of up log ?req] True show ?thesis
    by (auto simp: youtrackFetch_def Let_def io_bind_def io_throw_def)
qed

lemma githubFetch_failed:
  assumes "\<forall>l r. failed (up l r)"
  shows "\<exists>e log'. githubFetch env pf up path params log = (Inl e, log')"
proof (cases "valid_url pf (GITHUB_API_BASE @ path)")
  case False
  then show ?thesis by (simp add: githubFetch_def io_throw_def)
next
  case True
  let ?req = "\<lparr>url = GITHUB_API_BASE @ path, searchParams = set_all params,
                headers = [(''Authorization'', ''Bearer '' @ GITHUB_TOKEN env),
                           (''Accept'', ''application/vnd.github.text-match+json''),
                           (''X-GitHub-Api-Version'', ''2022-11-28'')]\<rparr>"
  from assms have "failed (up log ?req)" by blast
  with fetch_failed [of up log ?req] True show ?thesis
    by (auto simp: githubFetch_def io_bind_def io_throw_def)
qed

lemma try_catch_caught:
  assumes "m log = (Inl e, log')"
  shows "try_catch m handler log = handler e log'"
  using assms by (simp add: try_catch_def)

lemma io_bind_thrown:
  assumes "m log = (Inl e, log')"
  shows "io_bind m f log = (Inl e, log')"
  using assms by (simp add: io_bind_def)

lemma searchKBArticles_failed:
  assumes "\<forall>l r. failed (kb_articles pf l r)"
  shows "\<exists>log'. searchKBArticles env pf query limit log = (Inr [], log')"
proof -
  obtain e log' where
    "youtrackFetch env pf (kb_articles pf) ''/articles''
       [(''query'', query), (''fields'', search_fields),
        (''$top'', String_of (nullish_or limit 10))] log = (Inl e, log')"
    using youtrackFetch_failed [OF assms] by blast
  then show ?thesis
    by (simp add: searchKBArticles_def Let_def try_catch_def io_bind_def io_return_def)
qed

lemma getKBArticle_failed:
  assumes "\<forall>l r. failed (kb_article pf l r)"
  shows "\<exists>log'. getKBArticle env pf articleId log = (Inr None, log')"
proof -
  obtain e log' where
    "youtrackFetch env pf (kb_article pf) (''/articles/'' @ articleId)
       [(''fields'', article_fields)] log = (Inl e, log')"
    using youtrackFetch_failed [OF assms] by blast
  then show ?thesis
    by (simp add: getKBArticle_def try_catch_def io_bind_def io_return_def)
qed

lemma searchAndFetchArticles_no_hits:
  assumes "searchKBArticles env pf query (Some (nullish_or maxArticles 5)) log = (Inr [], log')"
  shows "searchAndFetchArticles env pf query maxArticles log
           = (Inr ''No YouTrack knowledge base articles found for this query.'', log')"
  using assms by (simp add: searchAndFetchArticles_def Let_def io_bind_def io_return_def)

lemma searchSupportSite_failed:
  assumes "\<forall>l r. failed (help_search pf l r)"
    and "encodeURIComponent pf query = Inr encoded"
  shows "\<exists>log'. searchSupportSite pf query limit log = (Inr [], log')"
proof -
  let ?req = "\<lparr>url = ZENDESK_API_BASE @ ''/articles/search.json?query=''
                      @ encoded @ ''&per_page='' @ String_of (nullish_or limit 5),
                searchParams = [], headers = [(''Accept'', ''application/json'')]\<rparr>"
  from assms(1) have "failed (help_search pf log ?req)" by blast
  with fetch_failed [of "help_search pf" log ?req] show ?thesis
    unfolding searchSupportSite_def Let_def io_bind_io_of_value [OF assms(2)]
    by (auto simp: try_catch_def io_bind_def io_return_def io_throw_def)
qed

lemma searchAndFetchSupportArticles_failed:
  assumes "\<forall>l r. failed (help_search pf l r)"
    and "encodeURIComponent pf query = Inr encoded"
  shows "\<exists>msg log'. searchAndFetchSupportArticles pf query maxArticles log
           = (Inr (''Error searching support articles: '' @ msg), log')"
proof -
  let ?req = "\<lparr>url = ZENDESK_API_BASE @ ''/articles/search.json?query=''
                      @ encoded @ ''&per_page='' @ String_of (nullish_or maxArticles 3),
                searchParams = [], headers = [(''Accept'', ''application/json'')]\<rparr>"
  from assms(1) have "failed (help_search pf log ?req)" by blast
  with fetch_failed [of "help_search pf" log ?req] show ?thesis
    unfolding searchAndFetchSupportArticles_def Let_def io_bind_io_of_value [OF assms(2)]
    by (auto simp: try_catch_def io_bind_def io_return_def io_throw_def)
qed

lemma searchGitHubCode_failed:
  assumes "\<forall>l r. failed (code_search pf l r)"
  shows "\<exists>log'. searchGitHubCode env pf query org limit log = (Inr [], log')"
proof -
  obtain e log' where
    "githubFetch env pf (code_search pf) ''/search/code''
       [(''q'', org_query env query org), (''per_page'', String_of (nullish_or limit 10))] log
       = (Inl e, log')"
    using githubFetch_failed [OF assms] by blast
  then show ?thesis
    by (simp add: searchGitHubCode_def Let_def try_catch_def io_bind_def io_return_def)
qed

lemma searchGitHubRepos_failed:
  assumes "\<forall>l r. failed (repo_search pf l r)"
  shows "\<exists>log'. searchGitHubRepos env pf query org limit log = (Inr [], log')"
proof -
  obtain e log' where
    "githubFetch env pf (repo_search pf) ''/search/repositories''
       [(''q'', org_query env query org), (''per_page'', String_of (nullish_or limit 5)),
        (''sort'', ''best-match'')] log
       = (Inl e, log')"
    using githubFetch_failed [OF assms] by blast
  then show ?thesis
    by (simp add: searchGitHubRepos_def Let_def try_catch_def io_bind_def io_return_def)
qed

lemma render_github_nothing:
  "render_github [] []
     = ''No matching repositories found.'' @ [newline, newline] @ ''No matching code found.''"
  by (simp add: render_github_def)

section \<open>The requests of the knowledge-base search\<close>

lemma youtrackFetch_log:
  "snd (youtrackFetch env pf up path params log) = log
   \<or> (\<exists>req. snd (youtrackFetch env pf up path params log) = log @ [req]
            \<and> url req = getBaseUrl env @ path)"
proof (cases "valid_url pf (getBaseUrl env @ path)")
  case False
  then show ?thesis by (simp add: youtrackFetch_def Let_def io_throw_def)
next
  case True
  let ?req = "\<lparr>url = getBaseUrl env @ path, searchParams = set_all params,
                headers = [(''Authorization'', ''Bearer '' @ YOUTRACK_TOKEN env),
                           (''Accept'', ''application/json''),
                           (''Content-Type'', ''application/json'')]\<rparr>"
  have "snd (youtrackFetch env pf up path params log) = log @ [?req]"
    using True
    by (cases "up log ?req")
       (auto simp: youtrackFetch_def Let_def io_bind_def fetch_def io_throw_def response_json_def)
  then show ?thesis by simp
qed

lemma try_catch_return_log:
  "snd (try_catch m (\<lambda>e. io_return v) log) = snd (m log)"
proof (cases "m log")
  case (Pair r l)
  then show ?thesis by (cases r) (simp_all add: try_catch_def io_return_def)
qed

lemma io_bind_return_log:
  "snd (io_bind m (\<lambda>x. io_return (f x)) log) = snd (m log)"
proof (cases "m log")
  case (Pair r l)
  then show ?thesis by (cases r) (simp_all add: io_bind_def io_return_def)
qed

lemma searchKBArticles_log:
  "snd (searchKBArticles env pf query limit log) = log
   \<or> (\<exists>req. snd (searchKBArticles env pf query limit log) = log @ [req]
            \<and> url req = getBaseUrl env @ ''/articles'')"
proof -
  have "snd (searchKBArticles env pf query limit log)
          = snd (youtrackFetch env pf (kb_articles pf) ''/articles''
                   [(''query'', query), (''fields'', search_fields),
                    (''$top'', String_of (nullish_or limit 10))] log)"
    unfolding searchKBArticles_def Let_def
    by (simp only: try_catch_return_log io_bind_return_log)
  then show ?thesis
    using youtrackFetch_log
      [of env pf "kb_articles pf" "''/articles''"
          "[(''query'', query), (''fields'', search_fields),
            (''$top'', String_of (nullish_or limit 10))]" log]
    by simp
qed

lemma fetch_each_all_absent:
  assumes "\<forall>a \<in> set articles. \<forall>l. fst (getKBArticle env pf (fetch_key a) l) = Inr None"
  shows "fst (fetch_each env pf articles results log) = Inr results"
  using assms
proof (induction articles arbitrary: log)
  case Nil
  show ?case by (simp add: io_return_def)
next
  case (Cons article rest)
  obtain r log1 where g: "getKBArticle env pf (fetch_key article) log = (r, log1)"
    by (cases "getKBArticle env pf (fetch_key article) log") blast
  from Cons.prems have "fst (getKBArticle env pf (fetch_key article) log) = Inr None" by simp
  with g have r: "r = Inr None" by simp
  from Cons.prems have "\<forall>a \<in> set rest. \<forall>l. fst (getKBArticle env pf (fetch_key a) l) = Inr None"
    by simp
  then have "fst (fetch_each env pf rest results log1) = Inr results" by (rule Cons.IH)
  with g r show ?case by (simp add: io_bind_def)
qed

section \<open>Evaluation on the samples\<close>

lemmas io_defs = io_bind_def io_return_def io_throw_def io_of_def try_catch_def fetch_def
  response_json_def

lemmas string_defs = endsWith_def startsWith_def strip_trailing_slashes_def String_of_def
  nat_digits.simps nullish_or_def or_empty_def truthy_def set_all_def ok_def

lemmas sample_defs = sample_env_def down_platform_def hits_platform_def sample_article_def
  sample_kb_request_def env_or_def YOUTRACK_BASE_URL_def YOUTRACK_TOKEN_def GITHUB_TOKEN_def
  GITHUB_ORG_def getBaseUrl_def

lemma sample_env_values:
  "getBaseUrl sample_env = ''https://yt.example/api''"
  "YOUTRACK_TOKEN sample_env = ''perm:abc''"
  "GITHUB_TOKEN sample_env = ''ghp_abc''"
  "GITHUB_ORG sample_env = ''Realtyka''"
  by (simp_all add: sample_defs string_defs)

lemma sample_search_down:
  "searchKBArticles sample_env down_platform ''q'' (Some 5) []
     = (Inr [], [sample_kb_request ''q'' ''5''])"
  by (simp add: searchKBArticles_def youtrackFetch_def Let_def sample_env_values io_defs
        down_platform_def sample_kb_request_def string_defs)

lemma sample_search_hits:
  "searchKBArticles sample_env hits_platform ''q'' (Some 5) []
     = (Inr [sample_article], [sample_kb_request ''q'' ''5''])"
  by (simp add: searchKBArticles_def youtrackFetch_def Let_def sample_env_values io_defs
        down_platform_def hits_platform_def sample_kb_request_def string_defs)

lemma sample_article_absent:
  "fst (getKBArticle sample_env hits_platform articleId l) = Inr None"
  by (simp add: getKBArticle_def youtrackFetch_def Let_def io_defs
        down_platform_def hits_platform_def ok_def)

lemma down_platform_down: "upstream_down down_platform"
  by (simp add: upstream_down_def failed_def down_platform_def ok_def)

section \<open>Claims about the knowledge-base adapter\<close>

text \<open>
  C4. When the search step of the knowledge-base \<open>searchAndFetch\<close> returns no article
  (the search found nothing, or it failed and was absorbed), the operation returns exactly
  the sentence \<open>No YouTrack knowledge base articles found for this query.\<close> and leaves the
  request log as the search step left it: at most the one request to \<open>/articles\<close> was made,
  and no request for a single article.
\<close>

theorem kb_searchAndFetch_no_hits:
  assumes "searchKBArticles env pf query (Some (nullish_or maxArticles 5)) log = (Inr [], log')"
  shows "searchAndFetchArticles env pf query maxArticles log
           = (Inr ''No YouTrack knowledge base articles found for this query.'', log')
         \<and> (log' = log \<or> (\<exists>req. log' = log @ [req] \<and> url req = getBaseUrl env @ ''/articles''))"
proof
  show "searchAndFetchArticles env pf query maxArticles log
          = (Inr ''No YouTrack knowledge base articles found for this query.'', log')"
    using assms by (rule searchAndFetchArticles_no_hits)
  from assms have "snd (searchKBArticles env pf query (Some (nullish_or maxArticles 5)) log) = log'"
    by simp
  with searchKBArticles_log [of env pf query "Some (nullish_or maxArticles 5)" log]
  show "log' = log \<or> (\<exists>req. log' = log @ [req] \<and> url req = getBaseUrl env @ ''/articles'')"
    by simp
qed

theorem kb_searchAndFetch_no_hits_witness:
  "searchKBArticles sample_env down_platform ''q'' (Some (nullish_or None 5)) []
     = (Inr [], [sample_kb_request ''q'' ''5''])
   \<and> searchAndFetchArticles sample_env down_platform ''q'' None []
       = (Inr ''No YouTrack knowledge base articles found for this query.'',
          [sample_kb_request ''q'' ''5''])"
proof -
  have h: "searchKBArticles sample_env down_platform ''q'' (Some (nullish_or None 5)) []
             = (Inr [], [sample_kb_request ''q'' ''5''])"
    using sample_search_down by (simp add: nullish_or_def)
  from kb_searchAndFetch_no_hits [OF h] h show ?thesis by simp
qed

text \<open>
  C10. When the search step returns one or more articles and the full fetch of every one
  of them returns absent, the knowledge-base \<open>searchAndFetch\<close> returns the empty string:
  the articles are skipped, and the sentence for an empty search is not produced.
\<close>

theorem kb_searchAndFetch_all_absent:
  assumes "searchKBArticles env pf query (Some (nullish_or maxArticles 5)) log = (Inr articles, log1)"
    and "articles \<noteq> []"
    and "\<forall>a \<in> set articles. \<forall>l. fst (getKBArticle env pf (fetch_key a) l) = Inr None"
  shows "fst (searchAndFetchArticles env pf query maxArticles log) = Inr []
         \<and> fst (searchAndFetchArticles env pf query maxArticles log)
             \<noteq> Inr ''No YouTrack knowledge base articles found for this query.''"
proof -
  have f: "fst (fetch_each env pf articles [] log1) = Inr []"
    using assms(3) by (rule fetch_each_all_absent)
  obtain r log2 where e: "fetch_each env pf articles [] log1 = (r, log2)"
    by (cases "fetch_each env pf articles [] log1") blast
  with f have "r = Inr []" by simp
  with e assms(1,2)
  have "fst (searchAndFetchArticles env pf query maxArticles log) = Inr []"
    by (simp add: searchAndFetchArticles_def Let_def io_bind_def io_return_def)
  then show ?thesis by simp
qed

theorem kb_searchAndFetch_all_absent_witness:
  "searchKBArticles sample_env hits_platform ''q'' (Some (nullish_or None 5)) []
     = (Inr [sample_article], [sample_kb_request ''q'' ''5''])
   \<and> [sample_article] \<noteq> []
   \<and> fst (getKBArticle sample_env hits_platform (fetch_key sample_article)
              [sample_kb_request ''q'' ''5'']) = Inr None
   \<and> fst (searchAndFetchArticles sample_env hits_platform ''q'' None []) = Inr []"
proof -
  have h1: "searchKBArticles sample_env hits_platform ''q'' (Some (nullish_or None 5)) []
              = (Inr [sample_article], [sample_kb_request ''q'' ''5''])"
    using sample_search_hits by (simp add: nullish_or_def)
  have h2: "[sample_article] \<noteq> []" by simp
  have h3: "\<forall>a \<in> set [sample_article]. \<forall>l.
              fst (getKBArticle sample_env hits_platform (fetch_key a) l) = Inr None"
    by (simp add: sample_article_absent)
  from kb_searchAndFetch_all_absent [OF h1 h2 h3] h1 h2 sample_article_absent
  show ?thesis by simp
qed

section \<open>Claim about upstream failures\<close>

lemma malformed_platform_down: "upstream_down malformed_platform"
  by (simp add: upstream_down_def failed_def malformed_platform_def down_platform_def ok_def)

lemma malformed_query_rejected:
  "encodeURIComponent malformed_platform unpaired_surrogate_query = Inl (Error ''URI malformed'')"
  by (simp add: malformed_platform_def)

text \<open>
  C3. The claim is that a search or \<open>searchAndFetch\<close> operation of an adapter never
  throws when the upstream call fails. The knowledge-base and code-host operations build
  their request inside the \<^verbatim>\<open>try\<close> block and return for every query, but both searches of
  the support adapter call \<^verbatim>\<open>encodeURIComponent\<close> before their \<^verbatim>\<open>try\<close> block. With every
  upstream out of order and a query with an unpaired surrogate, \<open>searchSupportSite\<close> and
  the support \<open>searchAndFetch\<close> throw the \<^verbatim>\<open>URIError\<close> and make no request, where the
  searches of the other two adapters return the empty sequence.
\<close>

theorem support_searches_throw_URIError:
  "upstream_down malformed_platform
   \<and> searchSupportSite malformed_platform unpaired_surrogate_query None []
       = (Inl (Error ''URI malformed''), [])
   \<and> searchAndFetchSupportArticles malformed_platform unpaired_surrogate_query None []
       = (Inl (Error ''URI malformed''), [])
   \<and> fst (searchKBArticles sample_env malformed_platform unpaired_surrogate_query None [])
       = Inr []
   \<and> fst (searchGitHubCode sample_env malformed_platform unpaired_surrogate_query None None [])
       = Inr []"
proof -
  from malformed_platform_down
  have ka: "\<forall>l r. failed (kb_articles malformed_platform l r)"
    and cs: "\<forall>l r. failed (code_search malformed_platform l r)"
    by (simp_all add: upstream_down_def)
  have 1: "fst (searchKBArticles sample_env malformed_platform unpaired_surrogate_query None [])
             = Inr []"
    using searchKBArticles_failed [OF ka, of sample_env unpaired_surrogate_query None "[]"]
    by auto
  have 2: "fst (searchGitHubCode sample_env malformed_platform unpaired_surrogate_query None None [])
             = Inr []"
    using searchGitHubCode_failed [OF cs, of sample_env unpaired_surrogate_query None None "[]"]
    by auto
  from malformed_platform_down
    searchSupportSite_throws [OF malformed_query_rejected, of None "[]"]
    searchAndFetchSupportArticles_throws [OF malformed_query_rejected, of None "[]"]
    1 2
  show ?thesis by (intro conjI)
qed

section \<open>Claim about support URLs without an article number\<close>

lemma startsWith_iff: "startsWith s p \<longleftrightarrow> (\<exists>r. s = p @ r)"
proof
  assume "startsWith s p"
  then have "s = p @ drop (length p) s"
    by (metis append_take_drop_id startsWith_def)
  then show "\<exists>r. s = p @ r" ..
next
  assume "\<exists>r. s = p @ r"
  then show "startsWith s p" by (auto simp: startsWith_def)
qed

lemma takeWhile_nonempty_hd:
  assumes "takeWhile P xs \<noteq> []"
  shows "\<exists>d v. xs = d # v \<and> P d"
proof (cases xs)
  case Nil
  with assms show ?thesis by simp
next
  case (Cons d v)
  with assms have "P d" by (auto split: if_splits)
  with Cons show ?thesis by blast
qed

lemma capture_at_nonempty:
  assumes "capture_at s \<noteq> []"
  shows "\<exists>d v. s = ''/articles/'' @ d # v \<and> isDigit d"
proof -
  from assms have sw: "startsWith s ''/articles/''"
    and tw: "takeWhile isDigit (drop (length ''/articles/'') s) \<noteq> []"
    by (auto simp: capture_at_def split: if_splits)
  from sw obtain r where r: "s = ''/articles/'' @ r"
    unfolding startsWith_iff by blast
  then have "drop (length ''/articles/'') s = r"
    by (metis append_eq_conv_conj)
  with tw have "takeWhile isDigit r \<noteq> []" by simp
  then obtain d v where "r = d # v" and "isDigit d"
    using takeWhile_nonempty_hd by blast
  with r show ?thesis by blast
qed

lemma drop_prefix: "drop (length p) (p @ r) = r"
  by simp

lemma capture_at_digit:
  assumes "isDigit d"
  shows "capture_at (''/articles/'' @ d # v) \<noteq> []"
proof -
  have "startsWith (''/articles/'' @ d # v) ''/articles/''"
    unfolding startsWith_iff by blast
  moreover have "drop (length ''/articles/'') (''/articles/'' @ d # v) = d # v"
    by (rule drop_prefix)
  ultimately show ?thesis using assms by (simp only: capture_at_def if_True) simp
qed

lemma capture_at_match:
  assumes "capture_at s \<noteq> []"
  shows "match_article_id s \<noteq> None"
proof (cases s)
  case Nil
  with assms show ?thesis by (simp add: capture_at_def startsWith_def)
next
  case (Cons c cs)
  with assms show ?thesis by simp
qed

lemma match_article_id_sound:
  assumes "match_article_id s = Some x"
  shows "\<exists>u d v. s = u @ ''/articles/'' @ d # v \<and> isDigit d"
  using assms
proof (induction s)
  case Nil
  then show ?case by simp
next
  case (Cons c cs)
  show ?case
  proof (cases "capture_at (c # cs) \<noteq> []")
    case True
    then obtain d v where "c # cs = ''/articles/'' @ d # v" and "isDigit d"
      using capture_at_nonempty by blast
    then have "c # cs = [] @ ''/articles/'' @ d # v \<and> isDigit d" by simp
    then show ?thesis by blast
  next
    case False
    with Cons.prems have "match_article_id cs = Some x" by simp
    then obtain u d v where "cs = u @ ''/articles/'' @ d # v" and "isDigit d"
      using Cons.IH by blast
    then have "c # cs = (c # u) @ ''/articles/'' @ d # v \<and> isDigit d" by simp
    then show ?thesis by blast
  qed
qed

lemma match_article_id_complete:
  assumes "isDigit d"
  shows "match_article_id (u @ ''/articles/'' @ d # v) \<noteq> None"
proof (induction u)
  case Nil
  show ?case
    unfolding append_Nil by (rule capture_at_match [OF capture_at_digit [OF assms]])
next
  case (Cons c u)
  then show ?case by simp
qed

lemma match_article_id_None_iff:
  "match_article_id s = None
     \<longleftrightarrow> \<not> (\<exists>u d v. s = u @ ''/articles/'' @ d # v \<and> isDigit d)"
proof
  assume n: "match_article_id s = None"
  show "\<not> (\<exists>u d v. s = u @ ''/articles/'' @ d # v \<and> isDigit d)"
  proof
    assume "\<exists>u d v. s = u @ ''/articles/'' @ d # v \<and> isDigit d"
    then obtain u d v where "s = u @ ''/articles/'' @ d # v" and "isDigit d" by blast
    with match_article_id_complete [of d u v] n show False by simp
  qed
next
  assume "\<not> (\<exists>u d v. s = u @ ''/articles/'' @ d # v \<and> isDigit d)"
  with match_article_id_sound [of s] show "match_article_id s = None"
    by (cases "match_article_id s") auto
qed

text \<open>
  C6. For a URL in which no \<open>/articles/\<close> is followed by a digit, \<open>getSupportArticle\<close>
  returns (it does not throw) the text \<open>Could not extract article ID from URL: \<close> followed
  by the URL as it was given, and the request log is unchanged: no network call is made.
\<close>

theorem getSupportArticle_no_article_id:
  assumes "\<not> (\<exists>u d v. url_arg = u @ ''/articles/'' @ d # v \<and> isDigit d)"
  shows "getSupportArticle pf url_arg log
           = (Inr (''Could not extract article ID from URL: '' @ url_arg), log)"
proof -
  from assms have "match_article_id url_arg = None"
    by (simp only: match_article_id_None_iff not_False_eq_True)
  then show ?thesis
    by (simp add: getSupportArticle_def try_catch_def io_return_def)
qed

theorem getSupportArticle_no_article_id_witness:
  "match_article_id ''https://help.example/hc/articles/about'' = None
   \<and> getSupportArticle down_platform ''https://help.example/hc/articles/about'' []
       = (Inr ''Could not extract article ID from URL: https://help.example/hc/articles/about'', [])"
proof -
  have n: "match_article_id ''https://help.example/hc/articles/about'' = None"
    by (simp add: capture_at_def startsWith_def isDigit_def)
  then have h: "\<not> (\<exists>u d v. ''https://help.example/hc/articles/about'' = u @ ''/articles/'' @ d # v
                        \<and> isDigit d)"
    using match_article_id_None_iff [of "''https://help.example/hc/articles/about''"] by blast
  from getSupportArticle_no_article_id [OF h, of down_platform "[]"] n show ?thesis by simp
qed

section \<open>Claim about the code-host text\<close>

lemma join_append:
  assumes "xs \<noteq> []" and "ys \<noteq> []"
  shows "join sep (xs @ ys) = join sep xs @ sep @ join sep ys"
  using assms
proof (induction sep xs rule: join.induct)
  case (1 sep)
  then show ?case by simp
next
  case (2 sep x)
  then show ?case by (cases ys) simp_all
next
  case (3 sep x y zs)
  then show ?case by simp
qed

lemma fold_push_repo:
  "fold push_repo repos parts = parts @ concat (map repo_lines repos)"
  by (induction repos arbitrary: parts) (simp_all add: push_repo_def repo_lines_def Let_def)

lemma fold_push_match:
  "fold push_match ms parts = parts @ concat (map match_lines ms)"
  by (induction ms arbitrary: parts) (simp_all add: push_match_def match_lines_def Let_def)

lemma render_github_sections:
  "render_github codeResults repoResults
     = repositories_section repoResults @ [newline, newline] @ code_section codeResults"
proof -
  define R where "R = (if repoResults = [] then [''No matching repositories found.'']
                       else [''## Relevant Repositories'', []] @ concat (map repo_lines repoResults))"
  define C where "C = (if codeResults = [] then [''No matching code found.'']
                       else [''## Code Matches'', []] @ concat (map match_lines codeResults))"
  have R: "R \<noteq> []" and C: "C \<noteq> []" by (simp_all add: R_def C_def)
  have jR: "join [newline] R = repositories_section repoResults"
    by (simp add: R_def repositories_section_def)
  have jC: "join [newline] C = code_section codeResults"
    by (simp add: C_def code_section_def)
  have "render_github codeResults repoResults = join [newline] (R @ ([[]] @ C))"
    by (simp add: render_github_def R_def C_def fold_push_repo fold_push_match)
  also have "\<dots> = join [newline] R @ [newline] @ join [newline] ([[]] @ C)"
    using R by (intro join_append) simp_all
  also have "join [newline] ([[]] @ C) = join [newline] [[]] @ [newline] @ join [newline] C"
    using C by (intro join_append) simp_all
  finally show ?thesis by (simp add: jR jC)
qed

lemma set_all_distinct2: "a \<noteq> b \<Longrightarrow> set_all [(a, x), (b, y)] = [(a, x), (b, y)]"
  by (simp add: set_all_def)

lemma set_all_distinct3:
  "a \<noteq> b \<Longrightarrow> a \<noteq> c \<Longrightarrow> b \<noteq> c
     \<Longrightarrow> set_all [(a, x), (b, y), (c, z)] = [(a, x), (b, y), (c, z)]"
  by (simp add: set_all_def)

lemma githubFetch_log:
  "snd (githubFetch env pf up path params log)
     = (if valid_url pf (GITHUB_API_BASE @ path)
        then log @ [github_request env path (set_all params)] else log)"
proof (cases "valid_url pf (GITHUB_API_BASE @ path)")
  case False
  then show ?thesis by (simp add: githubFetch_def io_throw_def)
next
  case True
  let ?req = "github_request env path (set_all params)"
  show ?thesis
    using True
    by (cases "up log ?req")
       (auto simp: githubFetch_def github_request_def io_bind_def fetch_def io_throw_def
          response_json_def)
qed

lemma searchGitHubCode_log:
  "snd (searchGitHubCode env pf query org limit log)
     = (if valid_url pf (GITHUB_API_BASE @ ''/search/code'')
        then log @ [github_request env ''/search/code''
                      [(''q'', org_query env query org),
                       (''per_page'', String_of (nullish_or limit 10))]]
        else log)"
proof -
  have "snd (searchGitHubCode env pf query org limit log)
          = snd (githubFetch env pf (code_search pf) ''/search/code''
                   [(''q'', org_query env query org),
                    (''per_page'', String_of (nullish_or limit 10))] log)"
    unfolding searchGitHubCode_def Let_def
    by (simp only: try_catch_return_log io_bind_return_log)
  then show ?thesis
    by (simp only: githubFetch_log) (simp add: set_all_distinct2)
qed

lemma searchGitHubRepos_log:
  "snd (searchGitHubRepos env pf query org limit log)
     = (if valid_url pf (GITHUB_API_BASE @ ''/search/repositories'')
        then log @ [github_request env ''/search/repositories''
                      [(''q'', org_query env query org),
                       (''per_page'', String_of (nullish_or limit 5)),
                       (''sort'', ''best-match'')]]
        else log)"
proof -
  have "snd (searchGitHubRepos env pf query org limit log)
          = snd (githubFetch env pf (repo_search pf) ''/search/repositories''
                   [(''q'', org_query env query org),
                    (''per_page'', String_of (nullish_or limit 5)),
                    (''sort'', ''best-match'')] log)"
    unfolding searchGitHubRepos_def Let_def
    by (simp only: try_catch_return_log io_bind_return_log)
  then show ?thesis
    by (simp only: githubFetch_log) (simp add: set_all_distinct3)
qed

lemma String_of_10: "String_of 10 = ''10''"
  by (simp add: String_of_def nat_digits.simps)

lemma String_of_5: "String_of 5 = ''5''"
  by (simp add: String_of_def nat_digits.simps)

lemma repositories_section_heading:
  assumes "repos \<noteq> []"
  shows "\<exists>rest. repositories_section repos
                 = ''## Relevant Repositories'' @ [newline, newline] @ rest"
proof -
  from assms obtain r rs where "repos = r # rs" by (cases repos) auto
  then show ?thesis by (simp add: repositories_section_def repo_lines_def)
qed

lemma code_section_heading:
  assumes "matches \<noteq> []"
  shows "\<exists>rest. code_section matches = ''## Code Matches'' @ [newline, newline] @ rest"
proof -
  from assms obtain m ms where "matches = m # ms" by (cases matches) auto
  then show ?thesis by (simp add: code_section_def match_lines_def)
qed

text \<open>
  C7. Without an access token the code-host \<open>searchAndFetch\<close> returns the fixed sentence
  and makes no request. With a token it runs the code search with limit 10 and the
  repository search with limit 5 (the requests carry \<open>per_page\<close> 10 and 5), and its text
  is the repositories section, an empty line, and the code-matches section, in this
  order. Each section is its own fallback line when its search returned nothing and
  starts with its heading otherwise, whatever the other section is.
\<close>

theorem github_searchAndFetch_text:
  "(isGitHubConfigured env \<longleftrightarrow> GITHUB_TOKEN env \<noteq> [])
   \<and> (\<not> isGitHubConfigured env \<longrightarrow>
        searchAndFetchGitHubResults env pf query org log = (Inr not_configured_sentence, log))
   \<and> (isGitHubConfigured env \<longrightarrow>
        (\<exists>codeResults repoResults log1 log2.
            searchGitHubCode env pf query org (Some 10) log = (Inr codeResults, log1)
          \<and> searchGitHubRepos env pf query org (Some 5) log1 = (Inr repoResults, log2)
          \<and> log1 = (if valid_url pf (GITHUB_API_BASE @ ''/search/code'')
                    then log @ [github_request env ''/search/code''
                                  [(''q'', org_query env query org), (''per_page'', ''10'')]]
                    else log)
          \<and> log2 = (if valid_url pf (GITHUB_API_BASE @ ''/search/repositories'')
                    then log1 @ [github_request env ''/search/repositories''
                                   [(''q'', org_query env query org), (''per_page'', ''5''),
                                    (''sort'', ''best-match'')]]
                    else log1)
          \<and> searchAndFetchGitHubResults env pf query org log
              = (Inr (repositories_section repoResults @ [newline, newline]
                        @ code_section codeResults), log2)))
   \<and> repositories_section [] = ''No matching repositories found.''
   \<and> code_section [] = ''No matching code found.''
   \<and> (repos \<noteq> [] \<longrightarrow>
        (\<exists>rest. repositories_section repos
                  = ''## Relevant Repositories'' @ [newline, newline] @ rest))
   \<and> (matches \<noteq> [] \<longrightarrow>
        (\<exists>rest. code_section matches = ''## Code Matches'' @ [newline, newline] @ rest))"
proof -
  have a: "isGitHubConfigured env \<longleftrightarrow> GITHUB_TOKEN env \<noteq> []"
    by (simp add: isGitHubConfigured_def)
  have b: "searchAndFetchGitHubResults env pf query org log = (Inr not_configured_sentence, log)"
    if "\<not> isGitHubConfigured env"
    using that by (simp add: searchAndFetchGitHubResults_def io_return_def)
  have c: "\<exists>codeResults repoResults log1 log2.
            searchGitHubCode env pf query org (Some 10) log = (Inr codeResults, log1)
          \<and> searchGitHubRepos env pf query org (Some 5) log1 = (Inr repoResults, log2)
          \<and> log1 = (if valid_url pf (GITHUB_API_BASE @ ''/search/code'')
                    then log @ [github_request env ''/search/code''
                                  [(''q'', org_query env query org), (''per_page'', ''10'')]]
                    else log)
          \<and> log2 = (if valid_url pf (GITHUB_API_BASE @ ''/search/repositories'')
                    then log1 @ [github_request env ''/search/repositories''
                                   [(''q'', org_query env query org), (''per_page'', ''5''),
                                    (''sort'', ''best-match'')]]
                    else log1)
          \<and> searchAndFetchGitHubResults env pf query org log
              = (Inr (repositories_section repoResults @ [newline, newline]
                        @ code_section codeResults), log2)"
    if conf: "isGitHubConfigured env"
  proof -
    obtain codeResults log1
      where cr: "searchGitHubCode env pf query org (Some 10) log = (Inr codeResults, log1)"
      using searchGitHubCode_returns by blast
    obtain repoResults log2
      where rr: "searchGitHubRepos env pf query org (Some 5) log1 = (Inr repoResults, log2)"
      using searchGitHubRepos_returns by blast
    have "nullish_or (Some 10) (10::int) = 10" by (simp add: nullish_or_def)
    with cr searchGitHubCode_log [of env pf query org "Some 10" log] have l1: "log1 = (if valid_url pf (GITHUB_API_BASE @ ''/search/code'')
                    then log @ [github_request env ''/search/code''
                                  [(''q'', org_query env query org), (''per_page'', ''10'')]]
                    else log)"
      by (simp add: String_of_10)
    have "nullish_or (Some 5) (5::int) = 5" by (simp add: nullish_or_def)
    with rr searchGitHubRepos_log [of env pf query org "Some 5" log1] have l2: "log2 = (if valid_url pf (GITHUB_API_BASE @ ''/search/repositories'')
                    then log1 @ [github_request env ''/search/repositories''
                                   [(''q'', org_query env query org), (''per_page'', ''5''),
                                    (''sort'', ''best-match'')]]
                    else log1)"
      by (simp add: String_of_5)
    have "searchAndFetchGitHubResults env pf query org log
              = (Inr (repositories_section repoResults @ [newline, newline]
                        @ code_section codeResults), log2)"
      using searchAndFetchGitHubResults_configured [OF conf cr rr]
      by (simp only: render_github_sections)
    with cr rr l1 l2 show ?thesis by blast
  qed
  have d: "repositories_section [] = ''No matching repositories found.''"
    by (simp add: repositories_section_def)
  have e: "code_section [] = ''No matching code found.''"
    by (simp add: code_section_def)
  show ?thesis
    by (intro conjI impI)
       (rule a, erule b, erule c, rule d, rule e,
        erule repositories_section_heading, erule code_section_heading)
qed


theorem github_searchAndFetch_text_witness:
  "isGitHubConfigured sample_env
   \<and> fst (searchAndFetchGitHubResults sample_env repos_platform ''q'' None [])
       = Inr (''## Relevant Repositories'' @ [newline, newline]
                @ ''- **Realtyka/keymaker** [Java]'' @ [newline]
                @ ''  https://github.com/Realtyka/keymaker'' @ [newline, newline]
                @ ''No matching code found.'')
   \<and> \<not> isGitHubConfigured Map.empty
   \<and> searchAndFetchGitHubResults Map.empty repos_platform ''q'' None []
       = (Inr not_configured_sentence, [])"
proof -
  have conf: "isGitHubConfigured sample_env"
    by (simp add: isGitHubConfigured_def sample_env_values)
  have nconf: "\<not> isGitHubConfigured Map.empty"
    by (simp add: isGitHubConfigured_def GITHUB_TOKEN_def env_or_def)
  have cr: "fst (searchGitHubCode sample_env repos_platform ''q'' None (Some 10) []) = Inr []"
    by (simp add: searchGitHubCode_def githubFetch_def Let_def io_defs repos_platform_def
          down_platform_def ok_def)
  have rr: "fst (searchGitHubRepos sample_env repos_platform ''q'' None (Some 5) l)
              = Inr [\<lparr>repo_name = ''keymaker'', fullName = ''Realtyka/keymaker'',
                       description = [], language = ''Java'',
                       repo_url = ''https://api.github.com/repos/Realtyka/keymaker'',
                       htmlUrl = ''https://github.com/Realtyka/keymaker''\<rparr>]" for l
    by (simp add: searchGitHubRepos_def githubFetch_def Let_def io_defs repos_platform_def
          down_platform_def ok_def sample_repo_item_def or_empty_def)
  from github_searchAndFetch_text [of sample_env repos_platform "''q''" None "[]" "[]" "[]"] conf
  obtain codeResults repoResults log1 log2 where
    1: "searchGitHubCode sample_env repos_platform ''q'' None (Some 10) [] = (Inr codeResults, log1)"
    and 2: "searchGitHubRepos sample_env repos_platform ''q'' None (Some 5) log1 = (Inr repoResults, log2)"
    and 3: "searchAndFetchGitHubResults sample_env repos_platform ''q'' None []
              = (Inr (repositories_section repoResults @ [newline, newline]
                        @ code_section codeResults), log2)"
    by blast
  from 1 cr have c: "codeResults = []" by simp
  from 2 rr [of log1] have r: "repoResults
      = [\<lparr>repo_name = ''keymaker'', fullName = ''Realtyka/keymaker'',
           description = [], language = ''Java'',
           repo_url = ''https://api.github.com/repos/Realtyka/keymaker'',
           htmlUrl = ''https://github.com/Realtyka/keymaker''\<rparr>]" by simp
  have t: "fst (searchAndFetchGitHubResults sample_env repos_platform ''q'' None [])
       = Inr (''## Relevant Repositories'' @ [newline, newline]
                @ ''- **Realtyka/keymaker** [Java]'' @ [newline]
                @ ''  https://github.com/Realtyka/keymaker'' @ [newline, newline]
                @ ''No matching code found.'')"
    by (simp add: 3 c r repositories_section_def code_section_def repo_lines_def)
  from github_searchAndFetch_text [of Map.empty repos_platform "''q''" None "[]" "[]" "[]"] nconf
  have u: "searchAndFetchGitHubResults Map.empty repos_platform ''q'' None []
             = (Inr not_configured_sentence, [])"
    by blast
  from conf nconf t u show ?thesis by blast
qed

section \<open>Claim about the text of the aggregator\<close>

lemma Promise_all_two:
  assumes "p1 log = (Inr a, l1)" and "p2 l1 = (Inr b, l2)"
  shows "Promise_all [p1, p2] log = (Inr [a, b], l2)"
  using assms by simp

lemma Promise_all_three:
  assumes "p1 log = (Inr a, l1)" and "p2 l1 = (Inr b, l2)" and "p3 l2 = (Inr c, l3)"
  shows "Promise_all [p1, p2, p3] log = (Inr [a, b, c], l3)"
  using assms by simp

lemma aggregator_join:
  "join [newline]
     [''# YouTrack Knowledge Base Results'', [], kb, [], ''---'', [],
      ''# Support Site Results'', [], support, [], ''---'', [],
      ''# GitHub Code Search Results'', [], third]
   = merged_text kb support third"
  by (simp add: merged_text_def)

lemma ask_product_question_skipped:
  assumes "\<not> (nullish_or include_github (isGitHubConfigured env) \<and> isGitHubConfigured env)"
    and "searchAndFetchArticles env pf question (Some (nullish_or max_kb 5)) log = (Inr kb, log1)"
    and "searchAndFetchSupportArticles pf question (Some (nullish_or max_support 3)) log1
           = (Inr support, log2)"
  shows "ask_product_question env pf question max_kb max_support include_github log
           = (Inr (merged_text kb support not_configured_sentence), log2)"
proof -
  have "Promise_all [searchAndFetchArticles env pf question (Some (nullish_or max_kb 5)),
                     searchAndFetchSupportArticles pf question (Some (nullish_or max_support 3))] log
          = (Inr [kb, support], log2)"
    using assms(2,3) by (rule Promise_all_two)
  moreover from assms(1)
  have "(nullish_or include_github (isGitHubConfigured env) \<and> isGitHubConfigured env) = False"
    by simp
  ultimately show ?thesis
    unfolding ask_product_question_def Let_def
    by (simp only: if_False)
       (simp add: io_bind_def io_return_def element_at_def or_empty_def truthy_def
          aggregator_join del: Promise_all.simps join.simps)
qed

lemma ask_product_question_dispatched:
  assumes "nullish_or include_github (isGitHubConfigured env) \<and> isGitHubConfigured env"
    and "searchAndFetchArticles env pf question (Some (nullish_or max_kb 5)) log = (Inr kb, log1)"
    and "searchAndFetchSupportArticles pf question (Some (nullish_or max_support 3)) log1
           = (Inr support, log2)"
    and "searchAndFetchGitHubResults env pf question None log2 = (Inr github, log3)"
    and "github \<noteq> []"
  shows "ask_product_question env pf question max_kb max_support include_github log
           = (Inr (merged_text kb support github), log3)"
proof -
  have "Promise_all [searchAndFetchArticles env pf question (Some (nullish_or max_kb 5)),
                     searchAndFetchSupportArticles pf question (Some (nullish_or max_support 3)),
                     searchAndFetchGitHubResults env pf question None] log
          = (Inr [kb, support, github], log3)"
    using assms(2,3,4) by (rule Promise_all_three)
  moreover from assms(1)
  have "(nullish_or include_github (isGitHubConfigured env) \<and> isGitHubConfigured env) = True"
    by (rule eqTrueI)
  ultimately show ?thesis
    using assms(5)
    unfolding ask_product_question_def Let_def
    by (simp only: if_True append.simps)
       (simp add: io_bind_def io_return_def element_at_def or_empty_def truthy_def
          aggregator_join del: Promise_all.simps join.simps)
qed

lemma searchAndFetchGitHubResults_nonempty:
  assumes "isGitHubConfigured env"
    and "searchAndFetchGitHubResults env pf query org log = (Inr text, log')"
  shows "text \<noteq> []"
proof -
  obtain c log1 where c: "searchGitHubCode env pf query org (Some 10) log = (Inr c, log1)"
    using searchGitHubCode_returns by blast
  obtain r log2 where r: "searchGitHubRepos env pf query org (Some 5) log1 = (Inr r, log2)"
    using searchGitHubRepos_returns by blast
  from searchAndFetchGitHubResults_configured [OF assms(1) c r] assms(2)
  have "text = render_github c r" by simp
  then show ?thesis by (simp add: render_github_sections)
qed

lemma sample_kb_text:
  "fst (searchAndFetchArticles sample_env down_platform ''q'' (Some 5) l)
     = Inr ''No YouTrack knowledge base articles found for this query.''"
  "fst (searchAndFetchArticles sample_env repos_platform ''q'' (Some 5) l)
     = Inr ''No YouTrack knowledge base articles found for this query.''"
  by (simp_all add: searchAndFetchArticles_def searchKBArticles_def youtrackFetch_def Let_def
        io_defs repos_platform_def down_platform_def nullish_or_def)

lemma sample_support_text:
  "fst (searchAndFetchSupportArticles down_platform ''q'' (Some 3) l)
     = Inr ''Error searching support articles: Zendesk API returned 503''"
  "fst (searchAndFetchSupportArticles repos_platform ''q'' (Some 3) l)
     = Inr ''Error searching support articles: Zendesk API returned 503''"
  by (simp_all add: searchAndFetchSupportArticles_def Let_def io_defs repos_platform_def
        down_platform_def ok_def message_def nat_digits.simps)

lemma sample_github_text:
  "fst (searchAndFetchGitHubResults sample_env repos_platform ''q'' None l)
     = Inr (''## Relevant Repositories'' @ [newline, newline]
              @ ''- **Realtyka/keymaker** [Java]'' @ [newline]
              @ ''  https://github.com/Realtyka/keymaker'' @ [newline, newline]
              @ ''No matching code found.'')"
proof -
  have conf: "isGitHubConfigured sample_env"
    by (simp add: isGitHubConfigured_def sample_env_values)
  obtain c l1 where c: "searchGitHubCode sample_env repos_platform ''q'' None (Some 10) l = (Inr c, l1)"
    using searchGitHubCode_returns by blast
  obtain r l2 where r: "searchGitHubRepos sample_env repos_platform ''q'' None (Some 5) l1 = (Inr r, l2)"
    using searchGitHubRepos_returns by blast
  have "fst (searchGitHubCode sample_env repos_platform ''q'' None (Some 10) l) = Inr []"
    by (simp add: searchGitHubCode_def githubFetch_def Let_def io_defs repos_platform_def
          down_platform_def ok_def)
  with c have c0: "c = []" by simp
  have "fst (searchGitHubRepos sample_env repos_platform ''q'' None (Some 5) l1)
          = Inr [\<lparr>repo_name = ''keymaker'', fullName = ''Realtyka/keymaker'',
                   description = [], language = ''Java'',
                   repo_url = ''https://api.github.com/repos/Realtyka/keymaker'',
                   htmlUrl = ''https://github.com/Realtyka/keymaker''\<rparr>]"
    by (simp add: searchGitHubRepos_def githubFetch_def Let_def io_defs repos_platform_def
          down_platform_def ok_def sample_repo_item_def or_empty_def)
  with r have r0: "r = [\<lparr>repo_name = ''keymaker'', fullName = ''Realtyka/keymaker'',
                   description = [], language = ''Java'',
                   repo_url = ''https://api.github.com/repos/Realtyka/keymaker'',
                   htmlUrl = ''https://github.com/Realtyka/keymaker''\<rparr>]" by simp
  from searchAndFetchGitHubResults_configured [OF conf c r]
  show ?thesis
    by (simp add: render_github_sections c0 r0 repositories_section_def code_section_def
          repo_lines_def)
qed

text \<open>
  C1, as the code has it. For a question that \<^verbatim>\<open>encodeURIComponent\<close> accepts, the text
  that \<open>ask_product_question\<close> returns is, in this order: the knowledge-base heading and
  the text of the knowledge-base adapter, a separator line \<open>---\<close>, the support-site heading
  and the text of the support adapter, a separator line, and always the code-results
  heading with a third text. The third text is the text of the code-host adapter when
  inclusion resolves true and the adapter is configured, and the fixed sentence
  \<open>not_configured_sentence\<close> whenever the adapter was skipped: when inclusion resolves
  false, and when the adapter is not configured (flag omitted or not).
\<close>

theorem ask_product_question_text:
  assumes "encodeURIComponent pf question = Inr encoded"
  shows "\<exists>kb support third log1 log2 log3.
      searchAndFetchArticles env pf question (Some (nullish_or max_kb 5)) log = (Inr kb, log1)
    \<and> searchAndFetchSupportArticles pf question (Some (nullish_or max_support 3)) log1
        = (Inr support, log2)
    \<and> (if nullish_or include_github (isGitHubConfigured env) \<and> isGitHubConfigured env
       then searchAndFetchGitHubResults env pf question None log2 = (Inr third, log3)
       else third = not_configured_sentence \<and> log3 = log2)
    \<and> ask_product_question env pf question max_kb max_support include_github log
        = (Inr (merged_text kb support third), log3)"
proof -
  obtain kb log1
    where k: "searchAndFetchArticles env pf question (Some (nullish_or max_kb 5)) log = (Inr kb, log1)"
    using searchAndFetchArticles_returns by blast
  obtain support log2
    where s: "searchAndFetchSupportArticles pf question (Some (nullish_or max_support 3)) log1
                = (Inr support, log2)"
    using searchAndFetchSupportArticles_returns [OF assms] by blast
  show ?thesis
  proof (cases "nullish_or include_github (isGitHubConfigured env) \<and> isGitHubConfigured env")
    case False
    have a: "ask_product_question env pf question max_kb max_support include_github log
               = (Inr (merged_text kb support not_configured_sentence), log2)"
      using False k s by (rule ask_product_question_skipped)
    have c: "if nullish_or include_github (isGitHubConfigured env) \<and> isGitHubConfigured env
             then searchAndFetchGitHubResults env pf question None log2
                    = (Inr not_configured_sentence, log2)
             else not_configured_sentence = not_configured_sentence \<and> log2 = log2"
      unfolding if_not_P [OF False] by (intro conjI refl)
    from k s c a show ?thesis by blast
  next
    case True
    obtain github log3
      where g: "searchAndFetchGitHubResults env pf question None log2 = (Inr github, log3)"
      using searchAndFetchGitHubResults_returns by blast
    from True have "isGitHubConfigured env" by (rule conjunct2)
    then have ne: "github \<noteq> []" using g by (rule searchAndFetchGitHubResults_nonempty)
    have a: "ask_product_question env pf question max_kb max_support include_github log
               = (Inr (merged_text kb support github), log3)"
      using True k s g ne by (rule ask_product_question_dispatched)
    have c: "if nullish_or include_github (isGitHubConfigured env) \<and> isGitHubConfigured env
             then searchAndFetchGitHubResults env pf question None log2 = (Inr github, log3)
             else github = not_configured_sentence \<and> log3 = log2"
      unfolding if_P [OF True] by (rule g)
    from k s c a show ?thesis by blast
  qed
qed

theorem ask_product_question_text_witness:
  "encodeURIComponent repos_platform ''q'' = Inr ''q''
   \<and> fst (ask_product_question sample_env repos_platform ''q'' None None None [])
     = Inr (merged_text ''No YouTrack knowledge base articles found for this query.''
              ''Error searching support articles: Zendesk API returned 503''
              (''## Relevant Repositories'' @ [newline, newline]
                 @ ''- **Realtyka/keymaker** [Java]'' @ [newline]
                 @ ''  https://github.com/Realtyka/keymaker'' @ [newline, newline]
                 @ ''No matching code found.''))"
proof -
  have conf: "nullish_or None (isGitHubConfigured sample_env) \<and> isGitHubConfigured sample_env"
    by (simp add: nullish_or_def isGitHubConfigured_def sample_env_values)
  have five: "nullish_or None (5::int) = 5" and three: "nullish_or None (3::int) = 3"
    by (simp_all add: nullish_or_def)
  have enc: "encodeURIComponent repos_platform ''q'' = Inr ''q''"
    by (simp add: repos_platform_def down_platform_def)
  from ask_product_question_text [OF enc, of sample_env None "[]" None None]
  obtain kb support third log1 log2 log3 where
    k: "searchAndFetchArticles sample_env repos_platform ''q'' (Some 5) [] = (Inr kb, log1)"
    and s: "searchAndFetchSupportArticles repos_platform ''q'' (Some 3) log1 = (Inr support, log2)"
    and g: "searchAndFetchGitHubResults sample_env repos_platform ''q'' None log2 = (Inr third, log3)"
    and a: "ask_product_question sample_env repos_platform ''q'' None None None []
              = (Inr (merged_text kb support third), log3)"
    unfolding if_P [OF conf] five three by blast
  from k sample_kb_text(2) [of "[]"]
  have "kb = ''No YouTrack knowledge base articles found for this query.''" by simp
  moreover from s sample_support_text(2) [of log1]
  have "support = ''Error searching support articles: Zendesk API returned 503''" by simp
  moreover from g sample_github_text [of log2]
  have "third = ''## Relevant Repositories'' @ [newline, newline]
                 @ ''- **Realtyka/keymaker** [Java]'' @ [newline]
                 @ ''  https://github.com/Realtyka/keymaker'' @ [newline, newline]
                 @ ''No matching code found.''" by simp
  ultimately show ?thesis using a enc by simp
qed

lemma merged_text_two_sections:
  "merged_text kb support third
     = two_section_text kb support @ [newline, newline] @ ''---'' @ [newline, newline]
         @ ''# GitHub Code Search Results'' @ [newline, newline] @ third"
  by (simp add: merged_text_def two_section_text_def)

text \<open>
  With a token configured and \<open>include_github\<close> set to false, the text still ends with the
  code-results heading and the fixed sentence; it is not the text of two sections only.
\<close>

theorem ask_product_question_opt_out_counterexample:
  "fst (ask_product_question sample_env down_platform ''q'' None None (Some False) [])
     = Inr (merged_text ''No YouTrack knowledge base articles found for this query.''
              ''Error searching support articles: Zendesk API returned 503''
              not_configured_sentence)
   \<and> fst (ask_product_question sample_env down_platform ''q'' None None (Some False) [])
       \<noteq> Inr (two_section_text ''No YouTrack knowledge base articles found for this query.''
                ''Error searching support articles: Zendesk API returned 503'')"
proof -
  have skip: "\<not> (nullish_or (Some False) (isGitHubConfigured sample_env)
                  \<and> isGitHubConfigured sample_env)"
    by (simp add: nullish_or_def)
  have five: "nullish_or None (5::int) = 5" and three: "nullish_or None (3::int) = 3"
    by (simp_all add: nullish_or_def)
  obtain kb log1
    where k: "searchAndFetchArticles sample_env down_platform ''q'' (Some (nullish_or None 5)) []
                = (Inr kb, log1)"
    using searchAndFetchArticles_returns by blast
  obtain support log2
    where s: "searchAndFetchSupportArticles down_platform ''q'' (Some (nullish_or None 3)) log1
                = (Inr support, log2)"
    using searchAndFetchSupportArticles_returns [of down_platform "''q''" "''q''"]
    by (simp add: down_platform_def) blast
  from k sample_kb_text(1) [of "[]"]
  have kb: "kb = ''No YouTrack knowledge base articles found for this query.''"
    by (simp add: five)
  from s sample_support_text(1) [of log1]
  have support: "support = ''Error searching support articles: Zendesk API returned 503''"
    by (simp add: three)
  from ask_product_question_skipped [OF skip k s]
  have a: "fst (ask_product_question sample_env down_platform ''q'' None None (Some False) [])
             = Inr (merged_text kb support not_configured_sentence)"
    by simp
  have "merged_text kb support not_configured_sentence \<noteq> two_section_text kb support"
    unfolding merged_text_two_sections by simp
  with a show ?thesis unfolding kb support by simp
qed

section \<open>The page size that reaches the upstream\<close>

lemma youtrackFetch_log_eq:
  "snd (youtrackFetch env pf up path params log)
     = (if valid_url pf (getBaseUrl env @ path)
        then log @ [youtrack_request env path (set_all params)] else log)"
proof (cases "valid_url pf (getBaseUrl env @ path)")
  case False
  then show ?thesis by (simp add: youtrackFetch_def Let_def io_throw_def)
next
  case True
  let ?req = "youtrack_request env path (set_all params)"
  show ?thesis
    using True
    by (cases "up log ?req")
       (auto simp: youtrackFetch_def youtrack_request_def Let_def io_bind_def fetch_def
          io_throw_def response_json_def)
qed

lemma searchKBArticles_log_eq:
  "snd (searchKBArticles env pf query limit log)
     = (if valid_url pf (getBaseUrl env @ ''/articles'')
        then log @ [kb_search_request env query (String_of (nullish_or limit 10))]
        else log)"
proof -
  have "snd (searchKBArticles env pf query limit log)
          = snd (youtrackFetch env pf (kb_articles pf) ''/articles''
                   [(''query'', query), (''fields'', search_fields),
                    (''$top'', String_of (nullish_or limit 10))] log)"
    unfolding searchKBArticles_def Let_def
    by (simp only: try_catch_return_log io_bind_return_log)
  then show ?thesis
    by (simp only: youtrackFetch_log_eq kb_search_request_def) (simp add: set_all_distinct3)
qed

lemma io_bind_pure_log:
  assumes "\<And>x. \<exists>v. f x = io_return v"
  shows "snd (io_bind m f log) = snd (m log)"
proof (cases "m log")
  case (Pair r l)
  show ?thesis
  proof (cases r)
    case (Inl e)
    with Pair show ?thesis by (simp add: io_bind_def)
  next
    case (Inr x)
    from assms obtain v where "f x = io_return v" by blast
    with Pair Inr show ?thesis by (simp add: io_bind_def io_return_def)
  qed
qed

lemma search_kb_articles_log:
  "snd (search_kb_articles env pf query limit log)
     = snd (searchKBArticles env pf query (Some (nullish_or limit 10)) log)"
  unfolding search_kb_articles_def
  by (rule io_bind_pure_log) auto

lemma search_support_site_log:
  "snd (search_support_site pf query limit log)
     = snd (searchSupportSite pf query (Some (nullish_or limit 5)) log)"
  unfolding search_support_site_def
  by (rule io_bind_pure_log) auto

lemma search_github_code_log:
  assumes "isGitHubConfigured env"
  shows "snd (search_github_code env pf query org limit log)
     = snd (searchGitHubCode env pf query org (Some (nullish_or limit 10)) log)"
proof -
  have "search_github_code env pf query org limit
          = io_bind (searchGitHubCode env pf query org (Some (nullish_or limit 10)))
              (\<lambda>results.
                 if length results = 0 then io_return ''No code matches found.''
                 else io_return
                        (join [newline, newline]
                           (map (\<lambda>m.
                                   let parts = [''**'' @ repository m @ ''** / `'' @ filePath m @ ''`''];
                                       parts = parts @ [''  '' @ match_url m];
                                       parts = (if length (textMatches m) > 0
                                                then parts @ [''```'']
                                                       @ [join ([newline] @ ''...'' @ [newline]) (textMatches m)]
                                                       @ [''```'']
                                                else parts)
                                   in join [newline] parts)
                              results)))"
    using assms unfolding search_github_code_def by (simp only: not_True_eq_False if_False)
  then show ?thesis
    by (simp only:) (rule io_bind_pure_log, auto)
qed

lemma after_encoding_value:
  "after_encoding (Inr encoded) reqs = reqs encoded"
  by (simp add: after_encoding_def)

lemma searchSupportSite_log:
  "snd (searchSupportSite pf query limit log)
     = log @ after_encoding (encodeURIComponent pf query)
               (\<lambda>encoded. [help_search_request encoded (String_of (nullish_or limit 5))])"
proof (cases "encodeURIComponent pf query")
  case (Inl e)
  then show ?thesis by (simp add: searchSupportSite_throws after_encoding_def)
next
  case (Inr encoded)
  let ?req = "help_search_request encoded (String_of (nullish_or limit 5))"
  have "snd (searchSupportSite pf query limit log) = log @ [?req]"
  proof (cases "help_search pf log ?req")
    case (Rejected e)
    then show ?thesis
      unfolding searchSupportSite_def Let_def io_bind_io_of_value [OF Inr]
      by (simp add: help_search_request_def io_defs)
  next
    case (Resolved response)
    then show ?thesis
      unfolding searchSupportSite_def Let_def io_bind_io_of_value [OF Inr]
      by (cases "json_body response") (simp_all add: help_search_request_def io_defs)
  qed
  with Inr show ?thesis by (simp add: after_encoding_def)
qed

lemma searchAndFetchSupportArticles_log:
  "snd (searchAndFetchSupportArticles pf query limit log)
     = log @ after_encoding (encodeURIComponent pf query)
               (\<lambda>encoded. [help_search_request encoded (String_of (nullish_or limit 3))])"
proof (cases "encodeURIComponent pf query")
  case (Inl e)
  then show ?thesis by (simp add: searchAndFetchSupportArticles_throws after_encoding_def)
next
  case (Inr encoded)
  let ?req = "help_search_request encoded (String_of (nullish_or limit 3))"
  have "snd (searchAndFetchSupportArticles pf query limit log) = log @ [?req]"
  proof (cases "help_search pf log ?req")
    case (Rejected e)
    then show ?thesis
      unfolding searchAndFetchSupportArticles_def Let_def io_bind_io_of_value [OF Inr]
      by (simp add: help_search_request_def io_defs)
  next
    case (Resolved response)
    then show ?thesis
      unfolding searchAndFetchSupportArticles_def Let_def io_bind_io_of_value [OF Inr]
      by (cases "json_body response") (simp_all add: help_search_request_def io_defs)
  qed
  with Inr show ?thesis by (simp add: after_encoding_def)
qed

lemma getKBArticle_log_grows:
  "\<exists>rest. snd (getKBArticle env pf articleId log) = log @ rest"
proof -
  have "snd (getKBArticle env pf articleId log)
          = snd (youtrackFetch env pf (kb_article pf) (''/articles/'' @ articleId)
                   [(''fields'', article_fields)] log)"
    unfolding getKBArticle_def
    by (simp only: try_catch_return_log io_bind_return_log)
  then show ?thesis by (simp add: youtrackFetch_log_eq)
qed

lemma fetch_each_log_grows:
  "\<exists>rest. snd (fetch_each env pf articles results log) = log @ rest"
proof (induction articles arbitrary: results log)
  case Nil
  show ?case by (simp add: io_return_def)
next
  case (Cons article rest)
  obtain r log1 where g: "getKBArticle env pf (fetch_key article) log = (r, log1)"
    by (cases "getKBArticle env pf (fetch_key article) log") blast
  obtain more1 where m1: "log1 = log @ more1"
    using getKBArticle_log_grows [of env pf "fetch_key article" log] g by auto
  show ?case
  proof (cases r)
    case (Inl e)
    with g m1 show ?thesis by (simp add: io_bind_def)
  next
    case (Inr full)
    let ?results = "case full of Some a \<Rightarrow> results @ [formatArticle a] | None \<Rightarrow> results"
    obtain more2 where "snd (fetch_each env pf rest ?results log1) = log1 @ more2"
      using Cons.IH by blast
    with g m1 Inr show ?thesis by (simp add: io_bind_def)
  qed
qed

lemma searchAndFetchArticles_log:
  "\<exists>rest. snd (searchAndFetchArticles env pf query limit log)
     = (if valid_url pf (getBaseUrl env @ ''/articles'')
        then log @ [kb_search_request env query (String_of (nullish_or limit 5))]
        else log) @ rest"
proof -
  let ?first = "if valid_url pf (getBaseUrl env @ ''/articles'')
                then log @ [kb_search_request env query (String_of (nullish_or limit 5))]
                else log"
  obtain articles log1
    where s: "searchKBArticles env pf query (Some (nullish_or limit 5)) log = (Inr articles, log1)"
    using searchKBArticles_returns by blast
  have "nullish_or (Some (nullish_or limit 5)) (10::int) = nullish_or limit 5"
    by (simp add: nullish_or_def)
  with s searchKBArticles_log_eq [of env pf query "Some (nullish_or limit 5)" log]
  have l1: "log1 = ?first" by simp
  show ?thesis
  proof (cases "length articles = 0")
    case True
    with s have "snd (searchAndFetchArticles env pf query limit log) = log1"
      by (simp add: searchAndFetchArticles_def Let_def io_bind_def io_return_def)
    with l1 have "snd (searchAndFetchArticles env pf query limit log) = ?first @ []" by simp
    then show ?thesis ..
  next
    case False
    obtain rest where f: "snd (fetch_each env pf articles [] log1) = log1 @ rest"
      using fetch_each_log_grows by blast
    have "snd (searchAndFetchArticles env pf query limit log)
            = snd (fetch_each env pf articles [] log1)"
      using s False
      by (cases "fetch_each env pf articles [] log1"; cases "fst (fetch_each env pf articles [] log1)")
         (simp_all add: searchAndFetchArticles_def Let_def io_bind_def io_return_def)
    with f l1 have "snd (searchAndFetchArticles env pf query limit log) = ?first @ rest" by simp
    then show ?thesis ..
  qed
qed

lemma Promise_all_log:
  "snd (Promise_all (p # ps) log) = snd (Promise_all ps (snd (p log)))"
proof (cases "p log")
  case (Pair r log1)
  show ?thesis
  proof (cases "Promise_all ps log1")
    case inner: (Pair rs log2)
    with Pair show ?thesis by (cases r; cases rs) simp_all
  qed
qed

lemma searchAndFetchGitHubResults_log_grows:
  "\<exists>rest. snd (searchAndFetchGitHubResults env pf query org log) = log @ rest"
proof (cases "isGitHubConfigured env")
  case False
  then show ?thesis by (simp add: searchAndFetchGitHubResults_def io_return_def)
next
  case True
  obtain c log1 where c: "searchGitHubCode env pf query org (Some 10) log = (Inr c, log1)"
    using searchGitHubCode_returns by blast
  obtain r log2 where r: "searchGitHubRepos env pf query org (Some 5) log1 = (Inr r, log2)"
    using searchGitHubRepos_returns by blast
  from c searchGitHubCode_log [of env pf query org "Some 10" log]
  obtain more1 where m1: "log1 = log @ more1" by (cases "valid_url pf (GITHUB_API_BASE @ ''/search/code'')") auto
  from r searchGitHubRepos_log [of env pf query org "Some 5" log1]
  obtain more2 where m2: "log2 = log1 @ more2"
    by (cases "valid_url pf (GITHUB_API_BASE @ ''/search/repositories'')") auto
  from searchAndFetchGitHubResults_configured [OF True c r] m1 m2
  have "snd (searchAndFetchGitHubResults env pf query org log) = log @ (more1 @ more2)" by simp
  then show ?thesis ..
qed

lemma ask_product_question_log:
  "\<exists>rest1 rest2. snd (ask_product_question env pf question max_kb max_support include_github log)
     = (if valid_url pf (getBaseUrl env @ ''/articles'')
        then log @ [kb_search_request env question (String_of (nullish_or max_kb 5))]
        else log)
       @ rest1
       @ after_encoding (encodeURIComponent pf question)
           (\<lambda>encoded. [help_search_request encoded (String_of (nullish_or max_support 3))])
       @ rest2"
proof -
  let ?first = "if valid_url pf (getBaseUrl env @ ''/articles'')
                then log @ [kb_search_request env question (String_of (nullish_or max_kb 5))]
                else log"
  let ?A = "searchAndFetchArticles env pf question (Some (nullish_or max_kb 5))"
  let ?B = "searchAndFetchSupportArticles pf question (Some (nullish_or max_support 3))"
  let ?C = "searchAndFetchGitHubResults env pf question None"
  let ?z = "after_encoding (encodeURIComponent pf question)
              (\<lambda>encoded. [help_search_request encoded (String_of (nullish_or max_support 3))])"
  have n5: "nullish_or (Some (nullish_or max_kb 5)) (5::int) = nullish_or max_kb 5"
    and n3: "nullish_or (Some (nullish_or max_support 3)) (3::int) = nullish_or max_support 3"
    by (simp_all add: nullish_or_def)
  obtain rest1 where a: "snd (?A log) = ?first @ rest1"
    using searchAndFetchArticles_log [of env pf question "Some (nullish_or max_kb 5)" log]
    unfolding n5 by blast
  have b: "snd (?B l) = l @ ?z" for l
    using searchAndFetchSupportArticles_log [of pf question "Some (nullish_or max_support 3)" l]
    unfolding n3 .
  have two: "snd (Promise_all [?A, ?B] log) = ?first @ rest1 @ ?z @ []"
    by (simp only: Promise_all_log a b) simp
  obtain rest2 where c: "snd (?C (?first @ rest1 @ ?z)) = (?first @ rest1 @ ?z) @ rest2"
    using searchAndFetchGitHubResults_log_grows by blast
  have three: "snd (Promise_all [?A, ?B, ?C] log) = ?first @ rest1 @ ?z @ rest2"
    using c by (simp only: Promise_all_log a b) simp
  have "snd (ask_product_question env pf question max_kb max_support include_github log)
          = snd (Promise_all
                   (if nullish_or include_github (isGitHubConfigured env) \<and> isGitHubConfigured env
                    then [?A, ?B] @ [?C] else [?A, ?B]) log)"
    unfolding ask_product_question_def Let_def
    by (rule io_bind_pure_log) blast
  also have "\<dots> = (if nullish_or include_github (isGitHubConfigured env) \<and> isGitHubConfigured env
                   then ?first @ rest1 @ ?z @ rest2 else ?first @ rest1 @ ?z @ [])"
    using two three by (simp only: append.simps if_distrib [of "\<lambda>ps. snd (Promise_all ps log)"])
  finally have fin: "snd (ask_product_question env pf question max_kb max_support include_github log)
      = (if nullish_or include_github (isGitHubConfigured env) \<and> isGitHubConfigured env
         then ?first @ rest1 @ ?z @ rest2 else ?first @ rest1 @ ?z @ [])" .
  show ?thesis
  proof (cases "nullish_or include_github (isGitHubConfigured env) \<and> isGitHubConfigured env")
    case True
    from fin have "snd (ask_product_question env pf question max_kb max_support include_github log)
                     = ?first @ rest1 @ ?z @ rest2"
      unfolding if_P [OF True] .
    then show ?thesis by blast
  next
    case False
    from fin have "snd (ask_product_question env pf question max_kb max_support include_github log)
                     = ?first @ rest1 @ ?z @ []"
      unfolding if_not_P [OF False] .
    then show ?thesis by blast
  qed
qed

lemma String_of_3: "String_of 3 = ''3''"
  by (simp add: String_of_def nat_digits.simps)

text \<open>
  C2, as the code has it. A limit that is absent is replaced by the default page size of
  the operation: 10 for \<open>search_kb_articles\<close>, 5 for the knowledge-base \<open>searchAndFetch\<close>,
  5 for \<open>search_support_site\<close>, 3 for the support \<open>searchAndFetch\<close>, 10 for the code
  search, and 5 and 3 again in \<open>ask_product_question\<close>. A limit that is supplied is passed
  upstream as it is, also when it is zero or negative. The page size is read off the
  request that the operation hands to \<^verbatim>\<open>fetch\<close>; the support searches make theirs once
  the query is encoded (\<open>after_encoding\<close>).
\<close>

theorem page_size_defaults:
  "snd (search_kb_articles env pf query limit log)
     = (if valid_url pf (getBaseUrl env @ ''/articles'')
        then log @ [kb_search_request env query
                      (String_of (case limit of None \<Rightarrow> 10 | Some n \<Rightarrow> n))]
        else log)
   \<and> (\<exists>rest. snd (searchAndFetchArticles env pf query limit log)
         = (if valid_url pf (getBaseUrl env @ ''/articles'')
            then log @ [kb_search_request env query
                          (String_of (case limit of None \<Rightarrow> 5 | Some n \<Rightarrow> n))]
            else log) @ rest)
   \<and> snd (search_support_site pf query limit log)
       = log @ after_encoding (encodeURIComponent pf query)
                 (\<lambda>encoded. [help_search_request encoded
                                (String_of (case limit of None \<Rightarrow> 5 | Some n \<Rightarrow> n))])
   \<and> snd (searchAndFetchSupportArticles pf query limit log)
       = log @ after_encoding (encodeURIComponent pf query)
                 (\<lambda>encoded. [help_search_request encoded
                                (String_of (case limit of None \<Rightarrow> 3 | Some n \<Rightarrow> n))])
   \<and> (isGitHubConfigured env \<longrightarrow>
        snd (search_github_code env pf query org limit log)
          = (if valid_url pf (GITHUB_API_BASE @ ''/search/code'')
             then log @ [code_search_request env query org
                           (String_of (case limit of None \<Rightarrow> 10 | Some n \<Rightarrow> n))]
             else log))
   \<and> (\<exists>rest1 rest2.
         snd (ask_product_question env pf query max_kb max_support include_github log)
           = (if valid_url pf (getBaseUrl env @ ''/articles'')
              then log @ [kb_search_request env query
                            (String_of (case max_kb of None \<Rightarrow> 5 | Some n \<Rightarrow> n))]
              else log)
             @ rest1
             @ after_encoding (encodeURIComponent pf query)
                 (\<lambda>encoded. [help_search_request encoded
                                (String_of (case max_support of None \<Rightarrow> 3 | Some n \<Rightarrow> n))])
             @ rest2)
   \<and> String_of 10 = ''10'' \<and> String_of 5 = ''5'' \<and> String_of 3 = ''3''"
proof -
  have idem: "nullish_or (Some (nullish_or x d)) d' = nullish_or x d" for x :: "int option" and d d'
    by (simp add: nullish_or_def)
  have 1: "snd (search_kb_articles env pf query limit log)
     = (if valid_url pf (getBaseUrl env @ ''/articles'')
        then log @ [kb_search_request env query (String_of (nullish_or limit 10))]
        else log)"
    by (simp only: search_kb_articles_log searchKBArticles_log_eq idem)
  have 3: "snd (search_support_site pf query limit log)
       = log @ after_encoding (encodeURIComponent pf query)
                 (\<lambda>encoded. [help_search_request encoded (String_of (nullish_or limit 5))])"
    by (simp only: search_support_site_log searchSupportSite_log idem)
  have 5: "snd (search_github_code env pf query org limit log)
          = (if valid_url pf (GITHUB_API_BASE @ ''/search/code'')
             then log @ [code_search_request env query org (String_of (nullish_or limit 10))]
             else log)"
    if "isGitHubConfigured env"
    by (simp only: search_github_code_log [OF that] searchGitHubCode_log idem
          code_search_request_def)
  show ?thesis
    unfolding nullish_or_def [symmetric]
    by (intro conjI impI)
       (rule 1, rule searchAndFetchArticles_log, rule 3, rule searchAndFetchSupportArticles_log,
        erule 5, rule ask_product_question_log, rule String_of_10, rule String_of_5,
        rule String_of_3)
qed

theorem page_size_defaults_witness:
  "snd (search_kb_articles sample_env down_platform ''q'' None [])
     = [kb_search_request sample_env ''q'' ''10'']
   \<and> snd (search_support_site down_platform ''q'' None [])
       = [help_search_request ''q'' ''5'']
   \<and> snd (searchAndFetchSupportArticles down_platform ''q'' None [])
       = [help_search_request ''q'' ''3'']
   \<and> isGitHubConfigured sample_env
   \<and> snd (search_github_code sample_env down_platform ''q'' None None [])
       = [code_search_request sample_env ''q'' None ''10'']
   \<and> snd (search_kb_articles sample_env down_platform ''q'' (Some 7) [])
       = [kb_search_request sample_env ''q'' ''7'']"
proof -
  have conf: "isGitHubConfigured sample_env"
    by (simp add: isGitHubConfigured_def sample_env_values)
  have v: "valid_url down_platform u" for u
    by (simp add: down_platform_def)
  have s7: "String_of 7 = ''7''"
    by (simp add: String_of_def nat_digits.simps)
  have enc: "encodeURIComponent down_platform ''q'' = Inr ''q''"
    by (simp add: down_platform_def)
  from page_size_defaults [of sample_env down_platform "''q''" None "[]" None None None None]
    page_size_defaults [of sample_env down_platform "''q''" "Some 7" "[]" None None None None]
    conf
  show ?thesis by (simp add: v s7 enc after_encoding_value)
qed

text \<open>
  A limit of zero reaches the knowledge base as \<open>$top=0\<close>, not as the default 10, and a
  limit of minus three reaches the help center as \<open>per_page=-3\<close>, not as the default 5.
\<close>

theorem page_size_nonpositive_counterexample:
  "snd (search_kb_articles sample_env down_platform ''q'' (Some 0) [])
     = [kb_search_request sample_env ''q'' ''0'']
   \<and> snd (search_kb_articles sample_env down_platform ''q'' (Some 0) [])
       \<noteq> [kb_search_request sample_env ''q'' ''10'']
   \<and> snd (search_support_site down_platform ''q'' (Some (- 3)) [])
       = [help_search_request ''q'' ''-3'']
   \<and> snd (search_support_site down_platform ''q'' (Some (- 3)) [])
       \<noteq> [help_search_request ''q'' ''5'']"
proof -
  have v: "valid_url down_platform u" for u
    by (simp add: down_platform_def)
  have s0: "String_of 0 = ''0''" and s3: "String_of (- 3) = ''-3''"
    by (simp_all add: String_of_def nat_digits.simps)
  have a: "snd (search_kb_articles sample_env down_platform ''q'' (Some 0) [])
             = [kb_search_request sample_env ''q'' ''0'']"
    by (simp add: search_kb_articles_log searchKBArticles_log_eq nullish_or_def v s0)
  have b: "snd (search_support_site down_platform ''q'' (Some (- 3)) [])
             = [help_search_request ''q'' ''-3'']"
    by (simp add: search_support_site_log searchSupportSite_log nullish_or_def s3
          down_platform_def after_encoding_value)
  have c: "kb_search_request sample_env ''q'' ''0'' \<noteq> kb_search_request sample_env ''q'' ''10''"
    by (simp add: kb_search_request_def youtrack_request_def)
  have d: "help_search_request ''q'' ''-3''
             \<noteq> help_search_request ''q'' ''5''"
    by (simp add: help_search_request_def)
  from a b c d show ?thesis by simp
qed

section \<open>The HTML normalizer\<close>

subsection \<open>Repeated lines\<close>



subsection \<open>Runs of line feeds\<close>




















subsection \<open>Trimming\<close>






subsection \<open>Claim about the normalizer\<close>





end
